theory Spec2Isabelle
  imports Main "HOL-Library.Char_ord" "HOL-Library.List_Lexorder" "HOL-Library.Sublist"
begin

section \<open>Data model (src/types.ts)\<close>

text \<open>
  The TypeScript interfaces become records. Several interfaces share the field names
  \<^verbatim>\<open>id\<close>, \<^verbatim>\<open>userId\<close>, \<^verbatim>\<open>boardId\<close>, \<^verbatim>\<open>createdAt\<close> and \<^verbatim>\<open>time\<close>;
  a record field is a constant of the theory, so those fields carry the name of their
  interface as a prefix. Times and dates are the ISO strings the code stores.
\<close>

record user =
  user_id :: string
  username :: string
  passwordHash :: string
  user_createdAt :: string

record board =
  board_id :: string
  board_userId :: string
  title :: string
  markdown :: string
  visibility :: string
  schedule :: string
  resetTime :: string
  createdAt :: string
  updatedAt :: string

record logAction =
  action_type :: string
  task :: "string option"
  action_time :: string

record log =
  log_id :: string
  log_boardId :: string
  log_userId :: string
  date :: string
  completedAt :: string
  actions :: "logAction list"

record notification =
  notif_id :: string
  notif_boardId :: string
  notif_userId :: string
  message :: string
  time :: string
  dismissed :: bool

record jwtPayload =
  jwt_userId :: string
  jwt_username :: string
  jwt_exp :: nat

text \<open>
  A user as the JavaScript object it is: its own properties, in the order the code
  writes them. \<^verbatim>\<open>const { passwordHash: _, ...userWithoutPassword } = user\<close> leaves every
  property of the object except \<^verbatim>\<open>passwordHash\<close>.
\<close>

type_synonym jsObject = "(string \<times> string) list"

definition user_object :: "user \<Rightarrow> jsObject" where
  "user_object u =
     [(''id'', user_id u), (''username'', username u), (''passwordHash'', passwordHash u),
      (''createdAt'', user_createdAt u)]"

definition userWithoutPassword :: "user \<Rightarrow> jsObject" where
  "userWithoutPassword u = filter (\<lambda>prop. fst prop \<noteq> ''passwordHash'') (user_object u)"

section \<open>JavaScript truthiness of optional strings\<close>

text \<open>
  A field destructured from the request body is \<^verbatim>\<open>undefined\<close> when the body lacks it
  (\<^const>\<open>None\<close>) and a string otherwise. \<^verbatim>\<open>!x\<close> holds for \<^verbatim>\<open>undefined\<close> and for the empty
  string; \<^verbatim>\<open>x || d\<close> is \<^verbatim>\<open>d\<close> in exactly those cases.
\<close>

fun truthy :: "string option \<Rightarrow> bool" where
  "truthy None = False"
| "truthy (Some s) = (s \<noteq> [])"

fun js_or :: "string option \<Rightarrow> string \<Rightarrow> string" where
  "js_or None d = d"
| "js_or (Some s) d = (if s = [] then d else s)"

section \<open>Responses (src/utils/response.ts)\<close>

datatype payload =
    DUser jsObject
  | DRegistered string jsObject
  | DLogin string jsObject
  | DBoard board
  | DBoards "board list"
  | DLog log
  | DLogs "log list"
  | DNotification notification
  | DNotifications "notification list"

datatype body =
    NoBody
  | Success payload
  | Failure string
  | Download string

record response =
  status :: nat
  body :: body

definition success :: "payload \<Rightarrow> nat \<Rightarrow> response" where
  "success d s = \<lparr>status = s, body = Success d\<rparr>"

definition error :: "string \<Rightarrow> nat \<Rightarrow> response" where
  "error msg s = \<lparr>status = s, body = Failure msg\<rparr>"

definition created :: "payload \<Rightarrow> response" where
  "created d = success d 201"

definition noContent :: response where
  "noContent = \<lparr>status = 204, body = NoBody\<rparr>"

definition unauthorized :: "string \<Rightarrow> response" where
  "unauthorized msg = error msg 401"

definition forbidden :: "string \<Rightarrow> response" where
  "forbidden msg = error msg 403"

definition notFound :: "string \<Rightarrow> response" where
  "notFound msg = error msg 404"

section \<open>The ordered key-value store (Deno.Kv, used by src/utils/kv.ts)\<close>

text \<open>
  Modelled from the spec: the store itself is the runtime's \<^verbatim>\<open>Deno.Kv\<close>, which is not
  part of the repository. Section 4.1 of the specification gives its contract: keys are
  tuples of strings, \<^verbatim>\<open>get\<close> returns the value or nothing, \<^verbatim>\<open>set\<close> and \<^verbatim>\<open>delete\<close> act on
  one key, and a scan over a prefix returns, in key order, the entries whose key starts
  with the parts of the prefix. A part of the prefix matches a whole part of the key,
  never a piece of one; as the runtime has it, the key that equals the prefix is not an
  entry under it (no function of kv.ts scans a prefix that it also writes).

  Every function of kv.ts writes its kind of value under its own constant first key
  part (\<^verbatim>\<open>"user"\<close>, \<^verbatim>\<open>"user_by_username"\<close>, \<^verbatim>\<open>"board"\<close>, \<^verbatim>\<open>"log"\<close>, \<^verbatim>\<open>"notif"\<close>), so
  the store is one typed table per first part, and the key of an entry in a table is
  the rest of the tuple. A table is the list of its entries in scan order.
\<close>

type_synonym key = "string list"

type_synonym 'v table = "(key \<times> 'v) list"

definition tbl_get :: "key \<Rightarrow> 'v table \<Rightarrow> 'v option" where
  "tbl_get k t = map_of t k"

definition tbl_delete :: "key \<Rightarrow> 'v table \<Rightarrow> 'v table" where
  "tbl_delete k t = filter (\<lambda>e. fst e \<noteq> k) t"

fun tbl_insert :: "key \<Rightarrow> 'v \<Rightarrow> 'v table \<Rightarrow> 'v table" where
  "tbl_insert k v [] = [(k, v)]"
| "tbl_insert k v (e # t) =
     (if k < fst e then (k, v) # e # t else e # tbl_insert k v t)"

definition tbl_set :: "key \<Rightarrow> 'v \<Rightarrow> 'v table \<Rightarrow> 'v table" where
  "tbl_set k v t = tbl_insert k v (tbl_delete k t)"

definition tbl_list :: "key \<Rightarrow> 'v table \<Rightarrow> 'v list" where
  "tbl_list p t = map snd (filter (\<lambda>e. strict_prefix p (fst e)) t)"

record database =
  users :: "user table"
  usernames :: "string table"
  boards :: "board table"
  logs :: "log table"
  notifs :: "notification table"

text \<open>
  A call on the store, with its arguments (the full key, first part included, and for a
  \<^verbatim>\<open>set\<close> the value).
\<close>

datatype kvValue =
    VUser user
  | VId string
  | VBoard board
  | VLog log
  | VNotification notification

datatype kv_call = KvGet key | KvSet key kvValue | KvDelete key | KvList key

text \<open>
  The store as a test double sees it: the data, the list of the calls made on it, oldest
  first, and the capacity faults of the store. The store throws on a call it refuses: on
  a key over its size limit in any call, and on a value over its size limit in a
  \<^verbatim>\<open>set\<close>. The sizes are those of the runtime's encodings, which the model does not
  have, so which calls the store refuses is a parameter, the field \<open>fault\<close>: the message
  of the error thrown on the call, or \<^const>\<open>None\<close> when the store carries the call out.
  Faults of the medium (I/O) are not modelled.
\<close>

record kv =
  db :: database
  calls :: "kv_call list"
  fault :: "kv_call \<Rightarrow> string option"

definition called :: "kv_call \<Rightarrow> kv \<Rightarrow> kv" where
  "called c st = st\<lparr>calls := calls st @ [c]\<rparr>"

text \<open>
  A key of at most 256 characters, counting one more for each part, is under the limit
  of 2048 bytes in any encoding of at most four bytes a character and two a part. The
  store never refuses to read, delete or scan such a key, whatever \<open>fault\<close> says.
\<close>

definition key_chars :: "key \<Rightarrow> nat" where
  "key_chars k = sum_list (map (\<lambda>part. Suc (length part)) k)"

fun refused :: "kv_call \<Rightarrow> kv \<Rightarrow> string option" where
  "refused (KvSet k v) st = fault st (KvSet k v)"
| "refused (KvGet k) st = (if key_chars k \<le> 256 then None else fault st (KvGet k))"
| "refused (KvDelete k) st = (if key_chars k \<le> 256 then None else fault st (KvDelete k))"
| "refused (KvList k) st = (if key_chars k \<le> 256 then None else fault st (KvList k))"

text \<open>
  An asynchronous function of kv.ts either throws (\<^const>\<open>Inl\<close>, with the message of the
  error) or returns a value (\<^const>\<open>Inr\<close>); either way the store has seen the call. A read
  returns what the data holds; a write changes the data when the store carries it out.
  \<open>andThen\<close> is \<^verbatim>\<open>await\<close> followed by the rest of the function: an error thrown by the
  first part skips the rest.
\<close>

type_synonym 'a async = "kv \<Rightarrow> (string + 'a) \<times> kv"

definition reading :: "kv_call \<Rightarrow> (database \<Rightarrow> 'a) \<Rightarrow> 'a async" where
  "reading c result st =
     (case refused c st of
        Some thrown \<Rightarrow> (Inl thrown, called c st)
      | None \<Rightarrow> (Inr (result (db st)), called c st))"

definition writing :: "kv_call \<Rightarrow> (database \<Rightarrow> database) \<Rightarrow> unit async" where
  "writing c change st =
     (case refused c st of
        Some thrown \<Rightarrow> (Inl thrown, called c st)
      | None \<Rightarrow> (Inr (), called c (st\<lparr>db := change (db st)\<rparr>)))"

definition returns :: "'a \<Rightarrow> 'a async" where
  "returns x st = (Inr x, st)"

definition andThen :: "'a async \<Rightarrow> ('a \<Rightarrow> 'b async) \<Rightarrow> 'b async" where
  "andThen m rest st =
     (case m st of
        (Inl thrown, st1) \<Rightarrow> (Inl thrown, st1)
      | (Inr x, st1) \<Rightarrow> rest x st1)"

section \<open>Repository functions (src/utils/kv.ts)\<close>

definition getUserById :: "string \<Rightarrow> user option async" where
  "getUserById i = reading (KvGet [''user'', i]) (\<lambda>d. tbl_get [i] (users d))"

definition getUserByUsername :: "string \<Rightarrow> user option async" where
  "getUserByUsername name =
     andThen (reading (KvGet [''user_by_username'', name]) (\<lambda>d. tbl_get [name] (usernames d)))
       (\<lambda>result. case result of
          None \<Rightarrow> returns None
        | Some i \<Rightarrow> if i = [] then returns None else getUserById i)"

definition setUser :: "string \<Rightarrow> user \<Rightarrow> unit async" where
  "setUser i u =
     andThen (writing (KvSet [''user'', i] (VUser u)) (\<lambda>d. d\<lparr>users := tbl_set [i] u (users d)\<rparr>))
       (\<lambda>_. writing (KvSet [''user_by_username'', username u] (VId i))
          (\<lambda>d. d\<lparr>usernames := tbl_set [username u] i (usernames d)\<rparr>))"

definition getBoard :: "string \<Rightarrow> string \<Rightarrow> board option async" where
  "getBoard userId boardId =
     reading (KvGet [''board'', userId, boardId]) (\<lambda>d. tbl_get [userId, boardId] (boards d))"

definition getBoardsByUserId :: "string \<Rightarrow> board list async" where
  "getBoardsByUserId userId =
     reading (KvList [''board'', userId]) (\<lambda>d. tbl_list [userId] (boards d))"

definition setBoard :: "string \<Rightarrow> string \<Rightarrow> board \<Rightarrow> unit async" where
  "setBoard userId boardId b =
     writing (KvSet [''board'', userId, boardId] (VBoard b))
       (\<lambda>d. d\<lparr>boards := tbl_set [userId, boardId] b (boards d)\<rparr>)"

definition deleteBoard :: "string \<Rightarrow> string \<Rightarrow> unit async" where
  "deleteBoard userId boardId =
     writing (KvDelete [''board'', userId, boardId])
       (\<lambda>d. d\<lparr>boards := tbl_delete [userId, boardId] (boards d)\<rparr>)"

text \<open>
  \<^verbatim>\<open>getPublicBoard\<close> walks the scan of the prefix \<^verbatim>\<open>["board"]\<close> and returns the first
  board with the requested id and visibility \<^verbatim>\<open>"public"\<close>, or null.
\<close>

definition getPublicBoard :: "string \<Rightarrow> board option async" where
  "getPublicBoard boardId =
     reading (KvList [''board''])
       (\<lambda>d. find (\<lambda>b. board_id b = boardId \<and> visibility b = ''public'') (tbl_list [] (boards d)))"

definition getLog :: "string \<Rightarrow> string \<Rightarrow> log option async" where
  "getLog boardId d =
     reading (KvGet [''log'', boardId, d]) (\<lambda>data. tbl_get [boardId, d] (logs data))"

definition getLogsByBoardId :: "string \<Rightarrow> log list async" where
  "getLogsByBoardId boardId =
     reading (KvList [''log'', boardId]) (\<lambda>d. tbl_list [boardId] (logs d))"

definition setLog :: "string \<Rightarrow> string \<Rightarrow> log \<Rightarrow> unit async" where
  "setLog boardId d l =
     writing (KvSet [''log'', boardId, d] (VLog l))
       (\<lambda>data. data\<lparr>logs := tbl_set [boardId, d] l (logs data)\<rparr>)"

definition deleteLog :: "string \<Rightarrow> string \<Rightarrow> unit async" where
  "deleteLog boardId d =
     writing (KvDelete [''log'', boardId, d])
       (\<lambda>data. data\<lparr>logs := tbl_delete [boardId, d] (logs data)\<rparr>)"

definition getNotificationsByBoardId :: "string \<Rightarrow> notification list async" where
  "getNotificationsByBoardId boardId =
     reading (KvList [''notif'', boardId]) (\<lambda>d. tbl_list [boardId] (notifs d))"

definition setNotification :: "string \<Rightarrow> string \<Rightarrow> notification \<Rightarrow> unit async" where
  "setNotification boardId notifId n =
     writing (KvSet [''notif'', boardId, notifId] (VNotification n))
       (\<lambda>d. d\<lparr>notifs := tbl_set [boardId, notifId] n (notifs d)\<rparr>)"

definition deleteNotification :: "string \<Rightarrow> string \<Rightarrow> unit async" where
  "deleteNotification boardId notifId =
     writing (KvDelete [''notif'', boardId, notifId])
       (\<lambda>d. d\<lparr>notifs := tbl_delete [boardId, notifId] (notifs d)\<rparr>)"

section \<open>Handlers and their catch\<close>

text \<open>
  A handler takes what the request carries (the \<^verbatim>\<open>userId\<close> the authorization
  middleware left in \<^verbatim>\<open>ctx.state\<close>, the route parameters, the body), the values the
  runtime hands it (\<^verbatim>\<open>generateId()\<close>, \<^verbatim>\<open>new Date().toISOString()\<close>) and the store; it
  returns the response and the store. The fields of a body have the types that
  types.ts declares for them.

  The body of every handler is \<^verbatim>\<open>try { ... } catch (err) { error(ctx, label + err.message, 500) }\<close>:
  an error thrown by a call on the store ends the handler with the answer 500.
\<close>

definition tryCatch :: "string \<Rightarrow> response async \<Rightarrow> kv \<Rightarrow> response \<times> kv" where
  "tryCatch label handlerBody st =
     (case handlerBody st of
        (Inl thrown, st1) \<Rightarrow> (error (label @ thrown) 500, st1)
      | (Inr r, st1) \<Rightarrow> (r, st1))"

section \<open>Board routes (src/routes/boards.ts)\<close>

record boardBody =
  req_title :: "string option"
  req_markdown :: "string option"
  req_visibility :: "string option"
  req_schedule :: "string option"
  req_resetTime :: "string option"

definition get_boards :: "string \<Rightarrow> kv \<Rightarrow> response \<times> kv" where
  "get_boards userId =
     tryCatch ''Failed to fetch boards: ''
       (andThen (getBoardsByUserId userId) (\<lambda>bs. returns (success (DBoards bs) 200)))"

definition get_board :: "string \<Rightarrow> string \<Rightarrow> kv \<Rightarrow> response \<times> kv" where
  "get_board userId boardId =
     tryCatch ''Failed to fetch board: ''
       (andThen (getBoard userId boardId)
          (\<lambda>b. case b of
             None \<Rightarrow> returns (notFound ''Board not found'')
           | Some brd \<Rightarrow> returns (success (DBoard brd) 200)))"

definition post_board :: "string \<Rightarrow> boardBody \<Rightarrow> string \<Rightarrow> string \<Rightarrow> kv \<Rightarrow> response \<times> kv" where
  "post_board userId bd newId now =
     tryCatch ''Failed to create board: ''
       (case req_title bd of
          None \<Rightarrow> returns (error ''Title and markdown are required'' 400)
        | Some t \<Rightarrow>
       (case req_markdown bd of
          None \<Rightarrow> returns (error ''Title and markdown are required'' 400)
        | Some m \<Rightarrow>
          if t = [] \<or> m = [] then returns (error ''Title and markdown are required'' 400)
          else
            (let newBoard =
                  \<lparr>board_id = newId, board_userId = userId, title = t, markdown = m,
                   visibility = js_or (req_visibility bd) ''private'',
                   schedule = js_or (req_schedule bd) ''daily'',
                   resetTime = js_or (req_resetTime bd) ''00:00'',
                   createdAt = now, updatedAt = now\<rparr>
             in andThen (setBoard userId newId newBoard)
                  (\<lambda>_. returns (created (DBoard newBoard))))))"

definition put_board ::
  "string \<Rightarrow> string \<Rightarrow> boardBody \<Rightarrow> string \<Rightarrow> kv \<Rightarrow> response \<times> kv" where
  "put_board userId boardId bd now =
     tryCatch ''Failed to update board: ''
       (andThen (getBoard userId boardId)
          (\<lambda>b. case b of
             None \<Rightarrow> returns (notFound ''Board not found'')
           | Some brd \<Rightarrow>
               (let updatedBoard =
                     brd\<lparr>title := js_or (req_title bd) (title brd),
                         markdown := js_or (req_markdown bd) (markdown brd),
                         visibility := js_or (req_visibility bd) (visibility brd),
                         schedule := js_or (req_schedule bd) (schedule brd),
                         resetTime := js_or (req_resetTime bd) (resetTime brd),
                         updatedAt := now\<rparr>
                in andThen (setBoard userId boardId updatedBoard)
                     (\<lambda>_. returns (success (DBoard updatedBoard) 200)))))"

definition delete_board :: "string \<Rightarrow> string \<Rightarrow> kv \<Rightarrow> response \<times> kv" where
  "delete_board userId boardId =
     tryCatch ''Failed to delete board: ''
       (andThen (getBoard userId boardId)
          (\<lambda>b. case b of
             None \<Rightarrow> returns (notFound ''Board not found'')
           | Some brd \<Rightarrow>
               andThen (deleteBoard userId boardId) (\<lambda>_. returns noContent)))"

definition get_public :: "string \<Rightarrow> kv \<Rightarrow> response \<times> kv" where
  "get_public boardId =
     tryCatch ''Failed to fetch public board: ''
       (andThen (getPublicBoard boardId)
          (\<lambda>b. case b of
             None \<Rightarrow> returns (notFound ''Public board not found'')
           | Some brd \<Rightarrow> returns (success (DBoard brd) 200)))"

section \<open>Log routes (src/routes/logs.ts)\<close>

record logBody =
  req_boardId :: "string option"
  req_actions :: "logAction list option"
  req_date :: "string option"

text \<open>\<^verbatim>\<open>iso.split("T")[0]\<close>: the part of an ISO instant before its first \<^verbatim>\<open>T\<close>.\<close>

definition isoDate :: "string \<Rightarrow> string" where
  "isoDate instant = takeWhile (\<lambda>c. c \<noteq> CHR ''T'') instant"

definition get_logs :: "string \<Rightarrow> string \<Rightarrow> kv \<Rightarrow> response \<times> kv" where
  "get_logs userId boardId =
     tryCatch ''Failed to fetch logs: ''
       (andThen (getBoard userId boardId)
          (\<lambda>b. case b of
             None \<Rightarrow> returns (forbidden ''Access denied'')
           | Some brd \<Rightarrow>
               andThen (getLogsByBoardId boardId) (\<lambda>ls. returns (success (DLogs ls) 200))))"

definition get_log :: "string \<Rightarrow> string \<Rightarrow> string \<Rightarrow> kv \<Rightarrow> response \<times> kv" where
  "get_log userId boardId d =
     tryCatch ''Failed to fetch log: ''
       (andThen (getBoard userId boardId)
          (\<lambda>b. case b of
             None \<Rightarrow> returns (forbidden ''Access denied'')
           | Some brd \<Rightarrow>
               andThen (getLog boardId d)
                 (\<lambda>l. case l of
                    None \<Rightarrow> returns (notFound ''Log not found for this date'')
                  | Some lg \<Rightarrow> returns (success (DLog lg) 200))))"

text \<open>
  \<^verbatim>\<open>POST /api/logs\<close>. An array is truthy even when empty, so \<^verbatim>\<open>!actions\<close> holds only
  for a body without actions. \<open>clock0\<close> is the instant read for the default date (read
  only when the body gives no date), \<open>now\<close> the instant read for \<^verbatim>\<open>completedAt\<close>.
\<close>

definition post_log ::
  "string \<Rightarrow> logBody \<Rightarrow> string \<Rightarrow> string \<Rightarrow> string \<Rightarrow> kv \<Rightarrow> response \<times> kv" where
  "post_log userId bd newId clock0 now =
     tryCatch ''Failed to create log: ''
       (case req_boardId bd of
          None \<Rightarrow> returns (error ''boardId and actions are required'' 400)
        | Some boardId \<Rightarrow>
       (case req_actions bd of
          None \<Rightarrow> returns (error ''boardId and actions are required'' 400)
        | Some acts \<Rightarrow>
          if boardId = [] then returns (error ''boardId and actions are required'' 400)
          else
            andThen (getBoard userId boardId)
              (\<lambda>b. case b of
                 None \<Rightarrow> returns (forbidden ''Access denied'')
               | Some brd \<Rightarrow>
                   (let logDate = js_or (req_date bd) (isoDate clock0)
                    in andThen (getLog boardId logDate)
                         (\<lambda>existingLog. case existingLog of
                            Some lg \<Rightarrow>
                              (let updatedLog =
                                    lg\<lparr>actions := actions lg @ acts, completedAt := now\<rparr>
                               in andThen (setLog boardId logDate updatedLog)
                                    (\<lambda>_. returns (success (DLog updatedLog) 200)))
                          | None \<Rightarrow>
                              (let newLog =
                                    \<lparr>log_id = newId, log_boardId = boardId, log_userId = userId,
                                     date = logDate, completedAt = now, actions = acts\<rparr>
                               in andThen (setLog boardId logDate newLog)
                                    (\<lambda>_. returns (created (DLog newLog)))))))))"

text \<open>
  \<^verbatim>\<open>DELETE /api/logs/:id\<close>. The handler first reads \<^verbatim>\<open>getBoard(userId, "")\<close> (the result is
  not used), then scans \<^verbatim>\<open>getLogsByBoardId(logId)\<close>: the logs filed under the board whose
  id is the log id of the request.
\<close>

definition delete_log :: "string \<Rightarrow> string \<Rightarrow> kv \<Rightarrow> response \<times> kv" where
  "delete_log userId logId =
     tryCatch ''Failed to delete log: ''
       (andThen (getBoard userId [])
          (\<lambda>allBoards. andThen (getLogsByBoardId logId)
             (\<lambda>ls. case find (\<lambda>l. log_id l = logId) ls of
                None \<Rightarrow> returns (notFound ''Log not found'')
              | Some foundLog \<Rightarrow>
                  andThen (getBoard userId (log_boardId foundLog))
                    (\<lambda>b. case b of
                       None \<Rightarrow> returns (forbidden ''Access denied'')
                     | Some brd \<Rightarrow>
                         andThen (deleteLog (log_boardId foundLog) (date foundLog))
                           (\<lambda>_. returns noContent)))))"

section \<open>Notification routes (src/routes/notify.ts)\<close>

record notifyBody =
  nreq_boardId :: "string option"
  nreq_message :: "string option"
  nreq_time :: "string option"

definition get_notifications :: "string \<Rightarrow> string \<Rightarrow> kv \<Rightarrow> response \<times> kv" where
  "get_notifications userId boardId =
     tryCatch ''Failed to fetch notifications: ''
       (andThen (getBoard userId boardId)
          (\<lambda>b. case b of
             None \<Rightarrow> returns (forbidden ''Access denied'')
           | Some brd \<Rightarrow>
               andThen (getNotificationsByBoardId boardId)
                 (\<lambda>ns. returns (success (DNotifications (filter (\<lambda>n. \<not> dismissed n) ns)) 200))))"

definition post_notification ::
  "string \<Rightarrow> notifyBody \<Rightarrow> string \<Rightarrow> kv \<Rightarrow> response \<times> kv" where
  "post_notification userId bd newId =
     tryCatch ''Failed to create notification: ''
       (if \<not> truthy (nreq_boardId bd) \<or> \<not> truthy (nreq_message bd) \<or> \<not> truthy (nreq_time bd)
        then returns (error ''boardId, message, and time are required'' 400)
        else
          (let boardId = js_or (nreq_boardId bd) []
           in andThen (getBoard userId boardId)
                (\<lambda>b. case b of
                   None \<Rightarrow> returns (forbidden ''Access denied'')
                 | Some brd \<Rightarrow>
                     (let newNotification =
                           \<lparr>notif_id = newId, notif_boardId = boardId, notif_userId = userId,
                            message = js_or (nreq_message bd) [], time = js_or (nreq_time bd) [],
                            dismissed = False\<rparr>
                      in andThen (setNotification boardId newId newNotification)
                           (\<lambda>_. returns (created (DNotification newNotification)))))))"

text \<open>
  Dismiss and delete get only the notification id. Both scan
  \<^verbatim>\<open>getNotificationsByBoardId("")\<close>, the notifications under the prefix
  \<^verbatim>\<open>["notif", ""]\<close>, and take the first one with the id and the caller as owner.
\<close>

definition dismiss_notification :: "string \<Rightarrow> string \<Rightarrow> kv \<Rightarrow> response \<times> kv" where
  "dismiss_notification userId notifId =
     tryCatch ''Failed to dismiss notification: ''
       (andThen (getNotificationsByBoardId [])
          (\<lambda>allNotifications.
             case find (\<lambda>n. notif_id n = notifId \<and> notif_userId n = userId) allNotifications of
               None \<Rightarrow> returns (notFound ''Notification not found'')
             | Some foundNotif \<Rightarrow>
                 (let updatedNotif = foundNotif\<lparr>dismissed := True\<rparr>
                  in andThen (setNotification (notif_boardId foundNotif) notifId updatedNotif)
                       (\<lambda>_. returns (success (DNotification updatedNotif) 200)))))"

definition delete_notification :: "string \<Rightarrow> string \<Rightarrow> kv \<Rightarrow> response \<times> kv" where
  "delete_notification userId notifId =
     tryCatch ''Failed to delete notification: ''
       (andThen (getNotificationsByBoardId [])
          (\<lambda>allNotifications.
             case find (\<lambda>n. notif_id n = notifId \<and> notif_userId n = userId) allNotifications of
               None \<Rightarrow> returns (notFound ''Notification not found'')
             | Some foundNotif \<Rightarrow>
                 andThen (deleteNotification (notif_boardId foundNotif) notifId)
                   (\<lambda>_. returns noContent)))"

section \<open>Credentials (src/utils/crypto.ts)\<close>

text \<open>
  crypto.ts wraps three things the repository does not contain: the bcrypt library,
  the djwt library and the process environment. What the runtime alone decides is a
  parameter of the model, gathered in one record: the secret in the environment, the
  hashes, the HMAC that signs a payload under a key, and the text of a token.
  \<open>jwt_encode\<close> writes a payload and its signature as a token; \<open>jwt_decode\<close> reads a
  token back, or finds it malformed (\<^const>\<open>None\<close>).
\<close>

record runtime =
  env_JWT_SECRET :: "string option"
  bcrypt_hashSync :: "string \<Rightarrow> string"
  bcrypt_compareSync :: "string \<Rightarrow> string \<Rightarrow> bool"
  hmacSha256 :: "string \<Rightarrow> jwtPayload \<Rightarrow> string"
  jwt_encode :: "jwtPayload \<Rightarrow> string \<Rightarrow> string"
  jwt_decode :: "string \<Rightarrow> (jwtPayload \<times> string) option"

text \<open>
  Modelled from the spec: \<^verbatim>\<open>create\<close> and \<^verbatim>\<open>verify\<close> of the djwt library, which crypto.ts
  imports and the repository does not contain. Section 4.2 of the specification: a token
  is a signed, self-contained credential that encodes the payload and is signed with a
  symmetric key; verification checks the signature and the expiry, and a malformed, an
  unsigned and an expired token are all invalid. \<^verbatim>\<open>verify\<close> gets the key, the time of the
  call in milliseconds (the library reads the clock itself) and the token, and either
  throws (\<^const>\<open>Inl\<close>, with the message) or returns the payload. A token whose \<^verbatim>\<open>exp\<close>, in
  seconds, lies before the time of the call has expired.
\<close>

definition djwt_create :: "runtime \<Rightarrow> string \<Rightarrow> jwtPayload \<Rightarrow> string" where
  "djwt_create R k p = jwt_encode R p (hmacSha256 R k p)"

definition djwt_verify :: "runtime \<Rightarrow> string \<Rightarrow> nat \<Rightarrow> string \<Rightarrow> string + jwtPayload" where
  "djwt_verify R k nowMs token =
     (case jwt_decode R token of
        None \<Rightarrow> Inl ''The serialization of the jwt is invalid.''
      | Some (p, signature) \<Rightarrow>
          if signature \<noteq> hmacSha256 R k p
          then Inl ''The jwt's signature does not match the verification signature.''
          else if jwt_exp p * 1000 < nowMs then Inl ''The jwt is expired.''
          else Inr p)"

definition JWT_SECRET :: "runtime \<Rightarrow> string" where
  "JWT_SECRET R = js_or (env_JWT_SECRET R) ''your-secret-key-change-in-production''"

text \<open>The HMAC key imported from the bytes of the secret is identified with the secret.\<close>

definition getKey :: "runtime \<Rightarrow> string" where
  "getKey R = JWT_SECRET R"

definition hashPassword :: "runtime \<Rightarrow> string \<Rightarrow> string" where
  "hashPassword R password = bcrypt_hashSync R password"

definition verifyPassword :: "runtime \<Rightarrow> string \<Rightarrow> string \<Rightarrow> bool" where
  "verifyPassword R password hash = bcrypt_compareSync R password hash"

definition generateToken :: "runtime \<Rightarrow> nat \<Rightarrow> string \<Rightarrow> string \<Rightarrow> string" where
  "generateToken R nowMs userId name =
     djwt_create R (getKey R)
       \<lparr>jwt_userId = userId, jwt_username = name, jwt_exp = nowMs div 1000 + 60 * 60 * 24\<rparr>"

text \<open>\<^verbatim>\<open>try { return verify(token, key) } catch { return null }\<close>\<close>

definition verifyToken :: "runtime \<Rightarrow> nat \<Rightarrow> string \<Rightarrow> jwtPayload option" where
  "verifyToken R nowMs token =
     (case djwt_verify R (getKey R) nowMs token of
        Inl thrown \<Rightarrow> None
      | Inr p \<Rightarrow> Some p)"

section \<open>Authorization middleware (src/middleware/authMiddleware.ts)\<close>

text \<open>
  \<open>next\<close> is the rest of the route, which gets the \<^verbatim>\<open>userId\<close> and \<^verbatim>\<open>username\<close> that
  the middleware writes to \<^verbatim>\<open>ctx.state\<close>. \<^verbatim>\<open>!authHeader\<close> holds for a request without the
  header and for an empty header.
\<close>

definition authMiddleware ::
  "runtime \<Rightarrow> nat \<Rightarrow> string option \<Rightarrow> (string \<Rightarrow> string \<Rightarrow> kv \<Rightarrow> response \<times> kv) \<Rightarrow> kv
     \<Rightarrow> response \<times> kv" where
  "authMiddleware R nowMs authHeader next st =
     (case authHeader of
        None \<Rightarrow> (unauthorized ''Missing or invalid authorization header'', st)
      | Some h \<Rightarrow>
          if h = [] \<or> \<not> prefix ''Bearer '' h
          then (unauthorized ''Missing or invalid authorization header'', st)
          else
            (case verifyToken R nowMs (drop 7 h) of
               None \<Rightarrow> (unauthorized ''Invalid or expired token'', st)
             | Some p \<Rightarrow> next (jwt_userId p) (jwt_username p) st))"

section \<open>Account routes (src/routes/auth.ts)\<close>

record credentials =
  req_username :: "string option"
  req_password :: "string option"

text \<open>\<open>length\<close> counts the characters of the password as the model's strings have them.\<close>

definition register ::
  "runtime \<Rightarrow> credentials \<Rightarrow> string \<Rightarrow> string \<Rightarrow> kv \<Rightarrow> response \<times> kv" where
  "register R bd newId now =
     tryCatch ''Registration failed: ''
       (case req_username bd of
          None \<Rightarrow> returns (error ''Username and password are required'' 400)
        | Some name \<Rightarrow>
       (case req_password bd of
          None \<Rightarrow> returns (error ''Username and password are required'' 400)
        | Some password \<Rightarrow>
          if name = [] \<or> password = []
          then returns (error ''Username and password are required'' 400)
          else if length password < 6
          then returns (error ''Password must be at least 6 characters'' 400)
          else
            andThen (getUserByUsername name)
              (\<lambda>existingUser. case existingUser of
                 Some u \<Rightarrow> returns (error ''Username already exists'' 409)
               | None \<Rightarrow>
                   (let newUser =
                         \<lparr>user_id = newId, username = name,
                          passwordHash = hashPassword R password, user_createdAt = now\<rparr>
                    in andThen (setUser newId newUser)
                         (\<lambda>_. returns
                            (created (DRegistered ''User created successfully''
                               (userWithoutPassword newUser))))))))"

definition login :: "runtime \<Rightarrow> nat \<Rightarrow> credentials \<Rightarrow> kv \<Rightarrow> response \<times> kv" where
  "login R nowMs bd =
     tryCatch ''Login failed: ''
       (case req_username bd of
          None \<Rightarrow> returns (error ''Username and password are required'' 400)
        | Some name \<Rightarrow>
       (case req_password bd of
          None \<Rightarrow> returns (error ''Username and password are required'' 400)
        | Some password \<Rightarrow>
          if name = [] \<or> password = []
          then returns (error ''Username and password are required'' 400)
          else
            andThen (getUserByUsername name)
              (\<lambda>found. case found of
                 None \<Rightarrow> returns (error ''Invalid username or password'' 401)
               | Some u \<Rightarrow>
                   if \<not> verifyPassword R password (passwordHash u)
                   then returns (error ''Invalid username or password'' 401)
                   else
                     returns
                       (success
                          (DLogin (generateToken R nowMs (user_id u) (username u))
                             (userWithoutPassword u))
                          200))))"

definition me :: "string \<Rightarrow> kv \<Rightarrow> response \<times> kv" where
  "me userId =
     tryCatch ''Failed to get user info: ''
       (andThen (getUserById userId)
          (\<lambda>found. case found of
             None \<Rightarrow> returns (error ''User not found'' 404)
           | Some u \<Rightarrow> returns (success (DUser (userWithoutPassword u)) 200)))"

definition logout :: "kv \<Rightarrow> response \<times> kv" where
  "logout st = (noContent, st)"

section \<open>Export routes (src/routes/export.ts)\<close>

text \<open>
  The export routes read the board and its logs and send a text. How the text is laid
  out is no concern here, so the layout is a parameter \<open>render\<close>; the store calls and
  the responses are those of the source. A handler that sets only the body answers 200.
\<close>

definition export_board ::
  "(board \<Rightarrow> log list \<Rightarrow> string) \<Rightarrow> string \<Rightarrow> string \<Rightarrow> kv \<Rightarrow> response \<times> kv" where
  "export_board render userId boardId =
     tryCatch ''Failed to export board: ''
       (andThen (getBoard userId boardId)
          (\<lambda>b. case b of
             None \<Rightarrow> returns (notFound ''Board not found'')
           | Some brd \<Rightarrow>
               andThen (getLogsByBoardId boardId)
                 (\<lambda>ls. returns \<lparr>status = 200, body = Download (render brd ls)\<rparr>)))"

definition export_all :: "(string \<Rightarrow> string) \<Rightarrow> string \<Rightarrow> kv \<Rightarrow> response \<times> kv" where
  "export_all render userId =
     tryCatch ''Failed to export data: ''
       (returns \<lparr>status = 200, body = Download (render userId)\<rparr>)"

section \<open>The routes behind the authorization middleware\<close>

text \<open>
  Every route that the routers register as \<^verbatim>\<open>router.METHOD(path, authMiddleware, handler)\<close>,
  with its route parameters and body. \<open>request\<close> holds what the runtime gives one request:
  the \<^verbatim>\<open>Authorization\<close> header, the clock (\<^verbatim>\<open>Date.now()\<close>, and the ISO instants read for a
  default log date and for a timestamp), the id that \<^verbatim>\<open>generateId()\<close> would return, and the
  layouts of the exports.
\<close>

datatype route =
    GetMe
  | PostLogout
  | GetBoards
  | GetBoard string
  | PostBoard boardBody
  | PutBoard string boardBody
  | DeleteBoard string
  | GetLogs string
  | GetLog string string
  | PostLog logBody
  | DeleteLog string
  | GetNotifications string
  | PostNotification notifyBody
  | DismissNotification string
  | DeleteNotification string
  | ExportMarkdown string
  | ExportCsv string
  | ExportJson

record request =
  authorization :: "string option"
  dateNowMs :: nat
  dateIso :: string
  dateIso0 :: string
  randomUUID :: string
  renderMarkdown :: "board \<Rightarrow> log list \<Rightarrow> string"
  renderCsv :: "board \<Rightarrow> log list \<Rightarrow> string"
  renderJson :: "string \<Rightarrow> string"

fun handler :: "request \<Rightarrow> route \<Rightarrow> string \<Rightarrow> string \<Rightarrow> kv \<Rightarrow> response \<times> kv" where
  "handler q GetMe userId name = me userId"
| "handler q PostLogout userId name = logout"
| "handler q GetBoards userId name = get_boards userId"
| "handler q (GetBoard i) userId name = get_board userId i"
| "handler q (PostBoard bd) userId name = post_board userId bd (randomUUID q) (dateIso q)"
| "handler q (PutBoard i bd) userId name = put_board userId i bd (dateIso q)"
| "handler q (DeleteBoard i) userId name = delete_board userId i"
| "handler q (GetLogs b) userId name = get_logs userId b"
| "handler q (GetLog b d) userId name = get_log userId b d"
| "handler q (PostLog bd) userId name = post_log userId bd (randomUUID q) (dateIso0 q) (dateIso q)"
| "handler q (DeleteLog i) userId name = delete_log userId i"
| "handler q (GetNotifications b) userId name = get_notifications userId b"
| "handler q (PostNotification bd) userId name = post_notification userId bd (randomUUID q)"
| "handler q (DismissNotification i) userId name = dismiss_notification userId i"
| "handler q (DeleteNotification i) userId name = delete_notification userId i"
| "handler q (ExportMarkdown b) userId name = export_board (renderMarkdown q) userId b"
| "handler q (ExportCsv b) userId name = export_board (renderCsv q) userId b"
| "handler q ExportJson userId name = export_all (renderJson q) userId"

definition serve :: "runtime \<Rightarrow> request \<Rightarrow> route \<Rightarrow> kv \<Rightarrow> response \<times> kv" where
  "serve R q r st = authMiddleware R (dateNowMs q) (authorization q) (handler q r) st"

section \<open>Example stores and requests\<close>

text \<open>
  The faults of the example stores: what the runtime's store refuses for certain, a key
  of more than 2048 characters (one more counted for each part) and a value with more
  than 65536 characters of text.
\<close>

fun value_chars :: "kvValue \<Rightarrow> nat" where
  "value_chars (VUser u) = length (username u) + length (passwordHash u)"
| "value_chars (VId i) = length i"
| "value_chars (VBoard b) = length (title b) + length (markdown b)"
| "value_chars (VLog l) = length (actions l)"
| "value_chars (VNotification n) = length (message n)"

fun exFault :: "kv_call \<Rightarrow> string option" where
  "exFault (KvSet k v) =
     (if 2048 < key_chars k then Some ''Key too large for write (max 2048 bytes)''
      else if 65536 < value_chars v then Some ''Value too large (max 65536 bytes)''
      else None)"
| "exFault (KvGet k) =
     (if 2048 < key_chars k then Some ''Key too large for read (max 2049 bytes)'' else None)"
| "exFault (KvDelete k) =
     (if 2048 < key_chars k then Some ''Key too large for write (max 2048 bytes)'' else None)"
| "exFault (KvList k) =
     (if 2048 < key_chars k then Some ''Key too large for read (max 2049 bytes)'' else None)"

definition emptyDb :: database where
  "emptyDb = \<lparr>users = [], usernames = [], boards = [], logs = [], notifs = []\<rparr>"

definition emptyKv :: kv where
  "emptyKv = \<lparr>db = emptyDb, calls = [], fault = exFault\<rparr>"

definition exBoardBody :: boardBody where
  "exBoardBody =
     \<lparr>req_title = Some ''Chores'', req_markdown = Some ''- [ ] dishes'',
      req_visibility = None, req_schedule = Some ''weekly'', req_resetTime = Some []\<rparr>"

text \<open>A body with a title of one character and a markdown text of 70000.\<close>

definition exLargeBody :: boardBody where
  "exLargeBody =
     \<lparr>req_title = Some ''T'', req_markdown = Some (replicate 70000 (CHR ''x'')),
      req_visibility = None, req_schedule = None, req_resetTime = None\<rparr>"

definition exPatch :: boardBody where
  "exPatch =
     \<lparr>req_title = Some ''Home'', req_markdown = None, req_visibility = Some [],
      req_schedule = None, req_resetTime = None\<rparr>"

definition exBoard :: board where
  "exBoard =
     \<lparr>board_id = ''b1'', board_userId = ''u1'', title = ''Chores'',
      markdown = ''- [ ] dishes'', visibility = ''private'', schedule = ''daily'',
      resetTime = ''00:00'', createdAt = ''2024-05-01T10:00:00.000Z'',
      updatedAt = ''2024-05-01T10:00:00.000Z''\<rparr>"

definition exPublicBoard :: board where
  "exPublicBoard =
     \<lparr>board_id = ''b2'', board_userId = ''u2'', title = ''Gym'',
      markdown = ''- [ ] squats'', visibility = ''public'', schedule = ''daily'',
      resetTime = ''00:00'', createdAt = ''2024-05-01T11:00:00.000Z'',
      updatedAt = ''2024-05-01T11:00:00.000Z''\<rparr>"

definition actX :: logAction where
  "actX = \<lparr>action_type = ''check'', task = Some ''dishes'',
           action_time = ''2024-05-02T08:00:00.000Z''\<rparr>"

definition actY :: logAction where
  "actY = \<lparr>action_type = ''done'', task = None, action_time = ''2024-05-02T09:00:00.000Z''\<rparr>"

definition exLog :: log where
  "exLog =
     \<lparr>log_id = ''l1'', log_boardId = ''b1'', log_userId = ''u1'', date = ''2024-05-02'',
      completedAt = ''2024-05-02T08:00:00.000Z'', actions = [actX]\<rparr>"

definition exNotification :: notification where
  "exNotification =
     \<lparr>notif_id = ''n1'', notif_boardId = ''b1'', notif_userId = ''u1'',
      message = ''Do the dishes'', time = ''2024-05-02T18:00:00.000Z'', dismissed = False\<rparr>"

text \<open>
  Two users with one board each (the first private, the second public), and a log and a
  notification of the first user's board, each under the key the routes file it under.
\<close>

definition exKv :: kv where
  "exKv =
     \<lparr>db = \<lparr>users = [], usernames = [],
             boards = [([''u1'', ''b1''], exBoard), ([''u2'', ''b2''], exPublicBoard)],
             logs = [([''b1'', ''2024-05-02''], exLog)],
             notifs = [([''b1'', ''n1''], exNotification)]\<rparr>,
      calls = [], fault = exFault\<rparr>"

text \<open>
  The same store with one more notification of the first user, filed under the empty
  board id, where the scan of the bare-id notification routes finds it.
\<close>

definition exStrayNotification :: notification where
  "exStrayNotification =
     \<lparr>notif_id = ''n9'', notif_boardId = [], notif_userId = ''u1'',
      message = ''Water the plants'', time = ''2024-05-03T18:00:00.000Z'', dismissed = False\<rparr>"

definition exStrayKv :: kv where
  "exStrayKv =
     exKv\<lparr>db := (db exKv)\<lparr>notifs := [([[], ''n9''], exStrayNotification),
                                       ([''b1'', ''n1''], exNotification)]\<rparr>\<rparr>"

definition exLogBody :: logBody where
  "exLogBody = \<lparr>req_boardId = Some ''b1'', req_actions = Some [actY], req_date = Some ''2024-05-02''\<rparr>"

definition exCredentials :: credentials where
  "exCredentials = \<lparr>req_username = Some ''ada'', req_password = Some ''secret1''\<rparr>"

text \<open>
  A stand-in for the libraries: a hash that is easy to read, a signature that is the
  key itself, and a token text that knows two tokens for the payload of the user \<open>ada\<close>,
  one signed with the server's default key and one signed with another key; every other
  string is malformed.
\<close>

definition exPayload :: jwtPayload where
  "exPayload = \<lparr>jwt_userId = ''u1'', jwt_username = ''ada'', jwt_exp = 1714640400\<rparr>"

definition exTokens :: "(string \<times> jwtPayload \<times> string) list" where
  "exTokens =
     [(''your-secret-key-change-in-production.u1.ada'',
         (exPayload, ''your-secret-key-change-in-production'')),
      (''another-key.u1.ada'', (exPayload, ''another-key''))]"

definition exRuntime :: runtime where
  "exRuntime =
     \<lparr>env_JWT_SECRET = None,
      bcrypt_hashSync = (\<lambda>password. ''#'' @ password),
      bcrypt_compareSync = (\<lambda>password hash. hash = ''#'' @ password),
      hmacSha256 = (\<lambda>k p. k),
      jwt_encode = (\<lambda>p signature. signature @ ''.'' @ jwt_userId p @ ''.'' @ jwt_username p),
      jwt_decode = map_of exTokens\<rparr>"

text \<open>The store \<open>exKv\<close> with the account of the user \<open>ada\<close>, and a request with a forged token.\<close>

definition exUser :: user where
  "exUser = \<lparr>user_id = ''u1'', username = ''ada'', passwordHash = ''#secret1'',
             user_createdAt = ''2024-05-01T09:00:00.000Z''\<rparr>"

definition exAuthKv :: kv where
  "exAuthKv = exKv\<lparr>db := (db exKv)\<lparr>users := [([''u1''], exUser)], usernames := [([''ada''], ''u1'')]\<rparr>\<rparr>"

definition exRequest :: request where
  "exRequest =
     \<lparr>authorization = Some ''Bearer forged.token.value'', dateNowMs = 1714554000000,
      dateIso = ''2024-05-01T09:00:00.000Z'', dateIso0 = ''2024-05-01T09:00:00.000Z'',
      randomUUID = ''b7'', renderMarkdown = (\<lambda>b ls. title b), renderCsv = (\<lambda>b ls. title b),
      renderJson = (\<lambda>userId. userId)\<rparr>"

section \<open>Facts about tables\<close>

lemma map_of_tbl_insert:
  "map_of t k = None \<Longrightarrow>
   map_of (tbl_insert k v t) k' = (if k' = k then Some v else map_of t k')"
  by (induction t) (auto split: if_splits)

lemma map_of_tbl_delete:
  "map_of (tbl_delete k t) k' = (if k' = k then None else map_of t k')"
  by (induction t) (auto simp: tbl_delete_def)

lemma tbl_get_set: "tbl_get k' (tbl_set k v t) = (if k' = k then Some v else tbl_get k' t)"
  by (simp add: tbl_get_def tbl_set_def map_of_tbl_insert map_of_tbl_delete)

lemma tbl_get_in_list:
  "tbl_get k t = Some v \<Longrightarrow> strict_prefix p k \<Longrightarrow> v \<in> set (tbl_list p t)"
  by (force simp: tbl_get_def tbl_list_def dest: map_of_SomeD)

lemma tbl_list_stored: "set (tbl_list p t) \<subseteq> snd ` set t"
  by (auto simp: tbl_list_def)

lemma find_cases:
  "(find P xs = None \<and> (\<forall>x\<in>set xs. \<not> P x)) \<or> (\<exists>x\<in>set xs. P x \<and> find P xs = Some x)"
  by (induction xs) auto

lemma set_tbl_insert: "set (tbl_insert k v t) = insert (k, v) (set t)"
  by (induction t) auto

lemma set_tbl_set: "set (tbl_set k v t) = insert (k, v) {e \<in> set t. fst e \<noteq> k}"
  by (auto simp: tbl_set_def set_tbl_insert tbl_delete_def)

lemma tbl_insert_count:
  "length (filter (\<lambda>e. fst e = k) (tbl_insert k v t)) = Suc (length (filter (\<lambda>e. fst e = k) t))"
  by (induction t) auto

lemma tbl_set_count: "length (filter (\<lambda>e. fst e = k) (tbl_set k v t)) = 1"
  by (simp add: tbl_set_def tbl_insert_count tbl_delete_def)

text \<open>
  A table whose keys are in strictly increasing order stays so under \<^const>\<open>tbl_set\<close> and
  \<^const>\<open>tbl_delete\<close>: the entries of a table built from the empty one are in key order,
  one per key.
\<close>

lemma sorted_tbl_insert:
  "sorted_wrt (<) (map fst t) \<Longrightarrow> k \<notin> fst ` set t \<Longrightarrow>
   sorted_wrt (<) (map fst (tbl_insert k v t))"
proof (induction t)
  case Nil
  then show ?case by simp
next
  case (Cons e t)
  then have "k \<noteq> fst e"
    by auto
  with Cons show ?case
    by (auto simp: set_tbl_insert)
qed

lemma sorted_tbl_delete:
  "sorted_wrt (<) (map fst t) \<Longrightarrow> sorted_wrt (<) (map fst (tbl_delete k t))"
  by (induction t) (auto simp: tbl_delete_def)

lemma sorted_tbl_set:
  "sorted_wrt (<) (map fst t) \<Longrightarrow> sorted_wrt (<) (map fst (tbl_set k v t))"
proof -
  assume "sorted_wrt (<) (map fst t)"
  then have "sorted_wrt (<) (map fst (tbl_delete k t))"
    by (rule sorted_tbl_delete)
  moreover have "k \<notin> fst ` set (tbl_delete k t)"
    by (auto simp: tbl_delete_def)
  ultimately show ?thesis
    unfolding tbl_set_def by (rule sorted_tbl_insert)
qed

section \<open>Facts about the calls on the store\<close>

text \<open>
  Whether the store refuses a call depends on its faults alone, not on the data or on
  the calls made so far. The scans of the two constant prefixes are never refused.
\<close>

lemmas async_defs = reading_def writing_def returns_def andThen_def tryCatch_def called_def

declare refused.simps [simp del]

lemma refused_same_fault [simp]:
  "refused c (st\<lparr>calls := cs\<rparr>) = refused c st"
  "refused c (st\<lparr>db := d\<rparr>) = refused c st"
  by (cases c; simp add: refused.simps)+

lemma key_chars_simps [simp]:
  "key_chars [] = 0" "key_chars (p # k) = Suc (length p) + key_chars k"
  by (simp_all add: key_chars_def)

lemma scan_of_constant_prefix_accepted [simp]:
  "refused (KvList [''board'']) st = None"
  "refused (KvList [''notif'', []]) st = None"
  by (simp_all add: refused.simps)

section \<open>Boards: create, read, update\<close>

text \<open>
  Claim C8. A board created by \<^verbatim>\<open>POST /api/boards\<close> from a body with a title and a
  markdown text that the store accepts, and then read by \<^verbatim>\<open>GET /api/boards/:id\<close> by the
  same user, comes back equal in every field to the board the creation answered with:
  the id is the generated one, the owner is the caller, the three optional fields have
  the body's value or their default, and \<^verbatim>\<open>createdAt\<close> and \<^verbatim>\<open>updatedAt\<close> are the instant
  of the creation. The read leaves the stored data as it was. When the store refuses the
  write, the creation answers 500 and nothing is stored; when it refuses the read, the
  read answers 500.
\<close>

theorem board_create_get_roundtrip:
  assumes "req_title bd = Some t" and "t \<noteq> []" and "req_markdown bd = Some m" and "m \<noteq> []"
    and "newBoard =
           \<lparr>board_id = newId, board_userId = userId, title = t, markdown = m,
            visibility = js_or (req_visibility bd) ''private'',
            schedule = js_or (req_schedule bd) ''daily'',
            resetTime = js_or (req_resetTime bd) ''00:00'',
            createdAt = now, updatedAt = now\<rparr>"
    and "post_board userId bd newId now st = (r1, st1)"
    and "get_board userId newId st1 = (r2, st2)"
  shows "case refused (KvSet [''board'', userId, newId] (VBoard newBoard)) st of
           Some thrown \<Rightarrow>
             r1 = \<lparr>status = 500, body = Failure (''Failed to create board: '' @ thrown)\<rparr>
           \<and> db st1 = db st
         | None \<Rightarrow>
             r1 = \<lparr>status = 201, body = Success (DBoard newBoard)\<rparr>
           \<and> tbl_get [userId, newId] (boards (db st1)) = Some newBoard
           \<and> (case refused (KvGet [''board'', userId, newId]) st of
                 Some thrown \<Rightarrow>
                   r2 = \<lparr>status = 500, body = Failure (''Failed to fetch board: '' @ thrown)\<rparr>
               | None \<Rightarrow> r2 = \<lparr>status = 200, body = Success (DBoard newBoard)\<rparr>)
           \<and> db st2 = db st1"
  using assms
  by (auto simp: post_board_def get_board_def getBoard_def setBoard_def async_defs
      created_def success_def error_def notFound_def tbl_get_set Let_def
      split: option.splits if_splits)

theorem board_create_get_roundtrip_witness:
  "(let (r1, st1) = post_board ''u1'' exBoardBody ''b1'' ''2024-05-01T10:00:00.000Z'' emptyKv;
        (r2, st2) = get_board ''u1'' ''b1'' st1
    in r2 = \<lparr>status = 200, body = Success (DBoard
         \<lparr>board_id = ''b1'', board_userId = ''u1'', title = ''Chores'', markdown = ''- [ ] dishes'',
          visibility = ''private'', schedule = ''weekly'', resetTime = ''00:00'',
          createdAt = ''2024-05-01T10:00:00.000Z'', updatedAt = ''2024-05-01T10:00:00.000Z''\<rparr>)\<rparr>
      \<and> body r1 = body r2 \<and> status r1 = 201 \<and> db st2 = db st1)
   \<and> (let (r1, st1) = post_board ''u1'' exLargeBody ''b3'' ''2024-05-01T10:00:00.000Z'' emptyKv
      in r1 = \<lparr>status = 500, body = Failure
           ''Failed to create board: Value too large (max 65536 bytes)''\<rparr>
        \<and> db st1 = db emptyKv)"
proof -
  let ?now = "''2024-05-01T10:00:00.000Z''"
  let ?b = "\<lparr>board_id = ''b1'', board_userId = ''u1'', title = ''Chores'', markdown = ''- [ ] dishes'',
          visibility = ''private'', schedule = ''weekly'', resetTime = ''00:00'',
          createdAt = ?now, updatedAt = ?now\<rparr>"
  let ?big = "\<lparr>board_id = ''b3'', board_userId = ''u1'', title = ''T'',
          markdown = replicate 70000 (CHR ''x''),
          visibility = ''private'', schedule = ''daily'', resetTime = ''00:00'',
          createdAt = ?now, updatedAt = ?now\<rparr>"
  have bd: "req_title exBoardBody = Some ''Chores''" "req_markdown exBoardBody = Some ''- [ ] dishes''"
    "?b = \<lparr>board_id = ''b1'', board_userId = ''u1'', title = ''Chores'', markdown = ''- [ ] dishes'',
          visibility = js_or (req_visibility exBoardBody) ''private'',
          schedule = js_or (req_schedule exBoardBody) ''daily'',
          resetTime = js_or (req_resetTime exBoardBody) ''00:00'',
          createdAt = ?now, updatedAt = ?now\<rparr>"
    by (simp_all add: exBoardBody_def)
  have big: "req_title exLargeBody = Some ''T''"
    "req_markdown exLargeBody = Some (replicate 70000 (CHR ''x''))"
    "?big = \<lparr>board_id = ''b3'', board_userId = ''u1'', title = ''T'',
          markdown = replicate 70000 (CHR ''x''),
          visibility = js_or (req_visibility exLargeBody) ''private'',
          schedule = js_or (req_schedule exLargeBody) ''daily'',
          resetTime = js_or (req_resetTime exLargeBody) ''00:00'',
          createdAt = ?now, updatedAt = ?now\<rparr>"
    by (simp_all add: exLargeBody_def)
  have accepted: "refused (KvSet [''board'', ''u1'', ''b1''] (VBoard ?b)) emptyKv = None"
    "refused (KvGet [''board'', ''u1'', ''b1'']) emptyKv = None"
    by (simp_all add: emptyKv_def refused.simps)
  have too_large: "refused (KvSet [''board'', ''u1'', ''b3''] (VBoard ?big)) emptyKv =
      Some ''Value too large (max 65536 bytes)''"
    by (simp add: emptyKv_def refused.simps)
  have 1: "fst (get_board ''u1'' ''b1'' (snd (post_board ''u1'' exBoardBody ''b1'' ?now emptyKv))) =
        \<lparr>status = 200, body = Success (DBoard ?b)\<rparr>
      \<and> fst (post_board ''u1'' exBoardBody ''b1'' ?now emptyKv) =
        \<lparr>status = 201, body = Success (DBoard ?b)\<rparr>
      \<and> db (snd (get_board ''u1'' ''b1'' (snd (post_board ''u1'' exBoardBody ''b1'' ?now emptyKv)))) =
        db (snd (post_board ''u1'' exBoardBody ''b1'' ?now emptyKv))"
    using board_create_get_roundtrip [where userId = "''u1''" and newId = "''b1''" and now = ?now
        and st = emptyKv, OF bd(1) _ bd(2) _ bd(3) surjective_pairing surjective_pairing]
    by (simp add: accepted)
  have 2: "fst (post_board ''u1'' exLargeBody ''b3'' ?now emptyKv) =
        \<lparr>status = 500, body = Failure ''Failed to create board: Value too large (max 65536 bytes)''\<rparr>
      \<and> db (snd (post_board ''u1'' exLargeBody ''b3'' ?now emptyKv)) = db emptyKv"
    using board_create_get_roundtrip [where userId = "''u1''" and newId = "''b3''" and now = ?now
        and st = emptyKv, OF big(1) _ big(2) _ big(3) surjective_pairing surjective_pairing]
    by (simp add: too_large)
  from 1 2 show ?thesis
    by (simp add: split_def)
qed

text \<open>
  Claim C9. After \<^verbatim>\<open>PUT /api/boards/:id\<close> on a board the caller owns, whatever the
  answer, the board under the key has the id, the owner and the \<^verbatim>\<open>createdAt\<close> of the old
  one, and each of title, markdown, visibility, schedule and resetTime that the body
  leaves out or gives as an empty string has its old value. When the store accepts the
  read and the write, the answer is 200 with the board that is then stored, the old one
  with the body's fields and with \<^verbatim>\<open>updatedAt\<close> the instant of the update; when it
  refuses one of them the answer is 500 and the stored data is unchanged.
\<close>

theorem put_board_frame:
  assumes "tbl_get [userId, boardId] (boards (db st)) = Some brd"
    and "updatedBoard =
           brd\<lparr>title := js_or (req_title bd) (title brd),
               markdown := js_or (req_markdown bd) (markdown brd),
               visibility := js_or (req_visibility bd) (visibility brd),
               schedule := js_or (req_schedule bd) (schedule brd),
               resetTime := js_or (req_resetTime bd) (resetTime brd),
               updatedAt := now\<rparr>"
    and "put_board userId boardId bd now st = (r, st')"
  shows "\<exists>b'. tbl_get [userId, boardId] (boards (db st')) = Some b'
          \<and> board_id b' = board_id brd \<and> board_userId b' = board_userId brd
          \<and> createdAt b' = createdAt brd
          \<and> (\<not> truthy (req_title bd) \<longrightarrow> title b' = title brd)
          \<and> (\<not> truthy (req_markdown bd) \<longrightarrow> markdown b' = markdown brd)
          \<and> (\<not> truthy (req_visibility bd) \<longrightarrow> visibility b' = visibility brd)
          \<and> (\<not> truthy (req_schedule bd) \<longrightarrow> schedule b' = schedule brd)
          \<and> (\<not> truthy (req_resetTime bd) \<longrightarrow> resetTime b' = resetTime brd)
          \<and> (if refused (KvGet [''board'', userId, boardId]) st = None
                \<and> refused (KvSet [''board'', userId, boardId] (VBoard updatedBoard)) st = None
              then r = \<lparr>status = 200, body = Success (DBoard b')\<rparr>
                 \<and> b' = updatedBoard \<and> updatedAt b' = now
              else status r = 500 \<and> db st' = db st)"
proof -
  have absent: "\<not> truthy x \<Longrightarrow> js_or x d = d" for x d
    by (cases x) auto
  show ?thesis
    using assms
    by (auto simp: put_board_def getBoard_def setBoard_def async_defs success_def error_def
        tbl_get_set absent Let_def split: option.splits if_splits)
qed

theorem put_board_frame_witness:
  "(let (r, st') = put_board ''u1'' ''b1'' exPatch ''2024-06-01T00:00:00.000Z'' exKv
    in r = \<lparr>status = 200, body = Success (DBoard
              (exBoard\<lparr>title := ''Home'', updatedAt := ''2024-06-01T00:00:00.000Z''\<rparr>))\<rparr>
     \<and> tbl_get [''u1'', ''b1''] (boards (db st')) =
         Some (exBoard\<lparr>title := ''Home'', updatedAt := ''2024-06-01T00:00:00.000Z''\<rparr>))
   \<and> (let (r, st') = put_board ''u1'' ''b1'' exLargeBody ''2024-06-01T00:00:00.000Z'' exKv
      in status r = 500 \<and> tbl_get [''u1'', ''b1''] (boards (db st')) = Some exBoard)"
proof -
  let ?now = "''2024-06-01T00:00:00.000Z''"
  let ?new = "exBoard\<lparr>title := ''Home'', updatedAt := ?now\<rparr>"
  let ?big = "exBoard\<lparr>title := ''T'', markdown := replicate 70000 (CHR ''x''), updatedAt := ?now\<rparr>"
  have stored: "tbl_get [''u1'', ''b1''] (boards (db exKv)) = Some exBoard"
    by (simp add: exKv_def tbl_get_def)
  have new: "?new = exBoard\<lparr>title := js_or (req_title exPatch) (title exBoard),
               markdown := js_or (req_markdown exPatch) (markdown exBoard),
               visibility := js_or (req_visibility exPatch) (visibility exBoard),
               schedule := js_or (req_schedule exPatch) (schedule exBoard),
               resetTime := js_or (req_resetTime exPatch) (resetTime exBoard),
               updatedAt := ?now\<rparr>"
    by (simp add: exPatch_def exBoard_def)
  have big: "?big = exBoard\<lparr>title := js_or (req_title exLargeBody) (title exBoard),
               markdown := js_or (req_markdown exLargeBody) (markdown exBoard),
               visibility := js_or (req_visibility exLargeBody) (visibility exBoard),
               schedule := js_or (req_schedule exLargeBody) (schedule exBoard),
               resetTime := js_or (req_resetTime exLargeBody) (resetTime exBoard),
               updatedAt := ?now\<rparr>"
    by (simp add: exLargeBody_def exBoard_def)
  have accepted: "refused (KvGet [''board'', ''u1'', ''b1'']) exKv = None"
    "refused (KvSet [''board'', ''u1'', ''b1''] (VBoard ?new)) exKv = None"
    by (simp_all add: exKv_def exBoard_def refused.simps)
  have too_large: "refused (KvSet [''board'', ''u1'', ''b1''] (VBoard ?big)) exKv \<noteq> None"
    by (simp add: exKv_def exBoard_def refused.simps)
  have 1: "fst (put_board ''u1'' ''b1'' exPatch ?now exKv) = \<lparr>status = 200, body = Success (DBoard ?new)\<rparr>
      \<and> tbl_get [''u1'', ''b1''] (boards (db (snd (put_board ''u1'' ''b1'' exPatch ?now exKv)))) = Some ?new"
  proof -
    from put_board_frame [OF stored new surjective_pairing]
    obtain b' where "tbl_get [''u1'', ''b1''] (boards (db (snd (put_board ''u1'' ''b1'' exPatch ?now exKv)))) = Some b'"
      and "if refused (KvGet [''board'', ''u1'', ''b1'']) exKv = None
            \<and> refused (KvSet [''board'', ''u1'', ''b1''] (VBoard ?new)) exKv = None
           then fst (put_board ''u1'' ''b1'' exPatch ?now exKv) = \<lparr>status = 200, body = Success (DBoard b')\<rparr>
              \<and> b' = ?new \<and> updatedAt b' = ?now
           else status (fst (put_board ''u1'' ''b1'' exPatch ?now exKv)) = 500
              \<and> db (snd (put_board ''u1'' ''b1'' exPatch ?now exKv)) = db exKv"
      by blast
    then show ?thesis
      by (simp add: accepted)
  qed
  have 2: "status (fst (put_board ''u1'' ''b1'' exLargeBody ?now exKv)) = 500
      \<and> tbl_get [''u1'', ''b1''] (boards (db (snd (put_board ''u1'' ''b1'' exLargeBody ?now exKv)))) =
          Some exBoard"
  proof -
    from put_board_frame [OF stored big surjective_pairing]
    obtain b' where "if refused (KvGet [''board'', ''u1'', ''b1'']) exKv = None
            \<and> refused (KvSet [''board'', ''u1'', ''b1''] (VBoard ?big)) exKv = None
           then fst (put_board ''u1'' ''b1'' exLargeBody ?now exKv) = \<lparr>status = 200, body = Success (DBoard b')\<rparr>
              \<and> b' = ?big \<and> updatedAt b' = ?now
           else status (fst (put_board ''u1'' ''b1'' exLargeBody ?now exKv)) = 500
              \<and> db (snd (put_board ''u1'' ''b1'' exLargeBody ?now exKv)) = db exKv"
      by blast
    then show ?thesis
      using too_large stored by simp
  qed
  from 1 2 show ?thesis
    by (simp add: split_def)
qed

text \<open>
  Claim C3, as stated, fails: a board that exists under another user's scope is answered
  with 404, not 403. The board routes read the key \<^verbatim>\<open>("board", caller, id)\<close> only, so a
  board of another user is not seen at all.
\<close>

theorem board_not_owned_counterexample:
  "tbl_get [''u1'', ''b1''] (boards (db exKv)) = Some exBoard
   \<and> status (fst (get_board ''u2'' ''b1'' exKv)) = 404
   \<and> status (fst (get_board ''u2'' ''b1'' exKv)) \<noteq> 403
   \<and> status (fst (put_board ''u2'' ''b1'' exPatch ''2024-06-01T00:00:00.000Z'' exKv)) \<noteq> 403
   \<and> status (fst (delete_board ''u2'' ''b1'' exKv)) \<noteq> 403"
  by (simp add: exKv_def tbl_get_def get_board_def put_board_def delete_board_def
      getBoard_def async_defs refused.simps notFound_def error_def)

text \<open>
  Claim C3, amended. When the caller has no board under the id (whoever else has one)
  and the store accepts the read of the caller's key, \<^verbatim>\<open>GET\<close>, \<^verbatim>\<open>PUT\<close> and
  \<^verbatim>\<open>DELETE /api/boards/:id\<close> answer 404 \<^verbatim>\<open>Board not found\<close>; when the store refuses the
  read they answer 500; the stored data is unchanged either way. The bare-id
  notification routes answer 404 as well when every stored notification with the id
  belongs to someone else.
\<close>

theorem board_not_owned_is_not_found:
  assumes "tbl_get [userId, boardId] (boards (db st)) = None"
  shows "(case refused (KvGet [''board'', userId, boardId]) st of
            None \<Rightarrow>
              fst (get_board userId boardId st) = \<lparr>status = 404, body = Failure ''Board not found''\<rparr>
            \<and> fst (put_board userId boardId bd now st) =
                \<lparr>status = 404, body = Failure ''Board not found''\<rparr>
            \<and> fst (delete_board userId boardId st) =
                \<lparr>status = 404, body = Failure ''Board not found''\<rparr>
          | Some thrown \<Rightarrow>
              status (fst (get_board userId boardId st)) = 500
            \<and> status (fst (put_board userId boardId bd now st)) = 500
            \<and> status (fst (delete_board userId boardId st)) = 500)
       \<and> db (snd (get_board userId boardId st)) = db st
       \<and> db (snd (put_board userId boardId bd now st)) = db st
       \<and> db (snd (delete_board userId boardId st)) = db st
       \<and> ((\<forall>n\<in>snd ` set (notifs (db st)). notif_id n = notifId \<longrightarrow> notif_userId n \<noteq> userId) \<longrightarrow>
            fst (dismiss_notification userId notifId st) =
              \<lparr>status = 404, body = Failure ''Notification not found''\<rparr>
          \<and> fst (delete_notification userId notifId st) =
              \<lparr>status = 404, body = Failure ''Notification not found''\<rparr>)"
proof -
  have boards: "(case refused (KvGet [''board'', userId, boardId]) st of
            None \<Rightarrow>
              fst (get_board userId boardId st) = \<lparr>status = 404, body = Failure ''Board not found''\<rparr>
            \<and> fst (put_board userId boardId bd now st) =
                \<lparr>status = 404, body = Failure ''Board not found''\<rparr>
            \<and> fst (delete_board userId boardId st) =
                \<lparr>status = 404, body = Failure ''Board not found''\<rparr>
          | Some thrown \<Rightarrow>
              status (fst (get_board userId boardId st)) = 500
            \<and> status (fst (put_board userId boardId bd now st)) = 500
            \<and> status (fst (delete_board userId boardId st)) = 500)
       \<and> db (snd (get_board userId boardId st)) = db st
       \<and> db (snd (put_board userId boardId bd now st)) = db st
       \<and> db (snd (delete_board userId boardId st)) = db st"
    using assms
    by (simp add: get_board_def put_board_def delete_board_def getBoard_def async_defs
        notFound_def error_def split: option.splits)
  have notif: "fst (dismiss_notification userId notifId st) =
              \<lparr>status = 404, body = Failure ''Notification not found''\<rparr>
          \<and> fst (delete_notification userId notifId st) =
              \<lparr>status = 404, body = Failure ''Notification not found''\<rparr>"
    if "\<forall>n\<in>snd ` set (notifs (db st)). notif_id n = notifId \<longrightarrow> notif_userId n \<noteq> userId"
  proof -
    from that have "find (\<lambda>n. notif_id n = notifId \<and> notif_userId n = userId)
        (tbl_list [[]] (notifs (db st))) = None"
      using tbl_list_stored [of "[[]]" "notifs (db st)"] by (auto simp: find_None_iff)
    then show ?thesis
      by (simp add: dismiss_notification_def delete_notification_def
          getNotificationsByBoardId_def async_defs notFound_def error_def)
  qed
  from boards notif show ?thesis
    by blast
qed

theorem board_not_owned_is_not_found_witness:
  "tbl_get [''u1'', ''b1''] (boards (db exStrayKv)) = Some exBoard
   \<and> status (fst (get_board ''u2'' ''b1'' exStrayKv)) = 404
   \<and> status (fst (put_board ''u2'' ''b1'' exPatch ''2024-06-01T00:00:00.000Z'' exStrayKv)) = 404
   \<and> status (fst (delete_board ''u2'' ''b1'' exStrayKv)) = 404
   \<and> db (snd (delete_board ''u2'' ''b1'' exStrayKv)) = db exStrayKv
   \<and> exStrayNotification \<in> set (tbl_list [[]] (notifs (db exStrayKv)))
   \<and> status (fst (dismiss_notification ''u2'' ''n9'' exStrayKv)) = 404
   \<and> status (fst (delete_notification ''u2'' ''n9'' exStrayKv)) = 404"
proof -
  have none: "tbl_get [''u2'', ''b1''] (boards (db exStrayKv)) = None"
    and stored: "tbl_get [''u1'', ''b1''] (boards (db exStrayKv)) = Some exBoard"
    by (simp_all add: exStrayKv_def exKv_def tbl_get_def)
  have read: "refused (KvGet [''board'', ''u2'', ''b1'']) exStrayKv = None"
    by (simp add: refused.simps)
  have others: "\<forall>n\<in>snd ` set (notifs (db exStrayKv)). notif_id n = ''n9'' \<longrightarrow> notif_userId n \<noteq> ''u2''"
    by (simp add: exStrayKv_def exKv_def exStrayNotification_def exNotification_def)
  have scan: "exStrayNotification \<in> set (tbl_list [[]] (notifs (db exStrayKv)))"
    by (simp add: exStrayKv_def exKv_def tbl_list_def)
  from board_not_owned_is_not_found [OF none, of exPatch "''2024-06-01T00:00:00.000Z''" "''n9''"]
  show ?thesis
    using read others stored scan by simp
qed

text \<open>
  The notification \<open>n9\<close> of the store \<open>exStrayKv\<close> is in the scan of the bare-id
  routes: its owner does reach it.
\<close>

lemma stray_notification_found_by_its_owner:
  "status (fst (dismiss_notification ''u1'' ''n9'' exStrayKv)) = 200"
  by (simp add: dismiss_notification_def getNotificationsByBoardId_def setNotification_def
      async_defs refused.simps success_def exStrayKv_def exKv_def tbl_list_def
      exStrayNotification_def Let_def)

section \<open>Public boards\<close>

lemma get_public_result:
  "get_public boardId st =
     (case find (\<lambda>b. board_id b = boardId \<and> visibility b = ''public'') (tbl_list [] (boards (db st))) of
        None \<Rightarrow> \<lparr>status = 404, body = Failure ''Public board not found''\<rparr>
      | Some b \<Rightarrow> \<lparr>status = 200, body = Success (DBoard b)\<rparr>,
      st\<lparr>calls := calls st @ [KvList [''board'']]\<rparr>)"
  by (simp add: get_public_def getPublicBoard_def async_defs notFound_def error_def success_def
      split: option.splits)

text \<open>
  Claim C4. \<^verbatim>\<open>GET /api/public/:boardId\<close> takes no credential: its only inputs are the
  id and the store. It answers either 404 or 200 with a board found in the scan of all
  boards of all owners that has the requested id and visibility \<^verbatim>\<open>public\<close>; it answers
  404 exactly when no board of the scan has the id and is public. So for a board stored
  under any owner whose id no other stored board shares, the answer to its id is the
  board itself when it is public and 404 when it is not. The store's data is unchanged.
\<close>

theorem public_board_lookup:
  "(\<forall>b. fst (get_public boardId st) = \<lparr>status = 200, body = Success (DBoard b)\<rparr> \<longrightarrow>
        b \<in> set (tbl_list [] (boards (db st))) \<and> board_id b = boardId \<and> visibility b = ''public'')
   \<and> (fst (get_public boardId st) = \<lparr>status = 404, body = Failure ''Public board not found''\<rparr> \<longleftrightarrow>
        (\<forall>b\<in>set (tbl_list [] (boards (db st))). board_id b = boardId \<longrightarrow> visibility b \<noteq> ''public''))
   \<and> (\<forall>owner i b.
         tbl_get [owner, i] (boards (db st)) = Some b \<and> board_id b = boardId
         \<and> (\<forall>x\<in>set (tbl_list [] (boards (db st))). board_id x = boardId \<longrightarrow> x = b) \<longrightarrow>
         fst (get_public boardId st) =
           (if visibility b = ''public'' then \<lparr>status = 200, body = Success (DBoard b)\<rparr>
            else \<lparr>status = 404, body = Failure ''Public board not found''\<rparr>))
   \<and> db (snd (get_public boardId st)) = db st"
proof -
  let ?P = "\<lambda>b. board_id b = boardId \<and> visibility b = ''public''"
  let ?S = "tbl_list [] (boards (db st))"
  note r = get_public_result [of boardId st]
  from find_cases [of ?P ?S]
  show ?thesis
  proof
    assume none: "find ?P ?S = None \<and> (\<forall>x\<in>set ?S. \<not> ?P x)"
    then have res: "fst (get_public boardId st) = \<lparr>status = 404, body = Failure ''Public board not found''\<rparr>"
      by (simp add: r)
    have "\<And>owner i b. tbl_get [owner, i] (boards (db st)) = Some b \<Longrightarrow> b \<in> set ?S"
      using tbl_get_in_list [where p = "[]"] by fastforce
    with none res show ?thesis
      by (auto simp: r)
  next
    assume "\<exists>x\<in>set ?S. ?P x \<and> find ?P ?S = Some x"
    then obtain x where x: "x \<in> set ?S" "?P x" "find ?P ?S = Some x"
      by blast
    then have res: "fst (get_public boardId st) = \<lparr>status = 200, body = Success (DBoard x)\<rparr>"
      by (simp add: r)
    from x res show ?thesis
      by (auto simp: r)
  qed
qed

theorem public_board_lookup_witness:
  "fst (get_public ''b2'' exKv) = \<lparr>status = 200, body = Success (DBoard exPublicBoard)\<rparr>
   \<and> fst (get_public ''b1'' exKv) = \<lparr>status = 404, body = Failure ''Public board not found''\<rparr>
   \<and> visibility exBoard = ''private''
   \<and> tbl_get [''u1'', ''b1''] (boards (db exKv)) = Some exBoard"
proof -
  have all: "tbl_list [] (boards (db exKv)) = [exBoard, exPublicBoard]"
    by (simp add: exKv_def tbl_list_def)
  have ids: "board_id exBoard = ''b1''" "board_id exPublicBoard = ''b2''"
    and vis: "visibility exBoard = ''private''" "visibility exPublicBoard = ''public''"
    by (simp_all add: exBoard_def exPublicBoard_def)
  have stored: "tbl_get [''u1'', ''b1''] (boards (db exKv)) = Some exBoard"
    "tbl_get [''u2'', ''b2''] (boards (db exKv)) = Some exPublicBoard"
    by (simp_all add: exKv_def tbl_get_def)
  note pub = public_board_lookup [of "''b2''" exKv, THEN conjunct2, THEN conjunct2,
      THEN conjunct1, rule_format, of "''u2''" "''b2''" exPublicBoard]
  note priv = public_board_lookup [of "''b1''" exKv, THEN conjunct2, THEN conjunct2,
      THEN conjunct1, rule_format, of "''u1''" "''b1''" exBoard]
  have "fst (get_public ''b2'' exKv) =
      (if visibility exPublicBoard = ''public''
       then \<lparr>status = 200, body = Success (DBoard exPublicBoard)\<rparr>
       else \<lparr>status = 404, body = Failure ''Public board not found''\<rparr>)"
    by (rule pub) (simp add: stored ids all)
  moreover have "fst (get_public ''b1'' exKv) =
      (if visibility exBoard = ''public''
       then \<lparr>status = 200, body = Success (DBoard exBoard)\<rparr>
       else \<lparr>status = 404, body = Failure ''Public board not found''\<rparr>)"
    by (rule priv) (simp add: stored ids all)
  ultimately show ?thesis
    by (simp add: vis stored)
qed

section \<open>Logs: one record per board and date\<close>

lemma post_log_outcome:
  assumes "tbl_get [userId, boardId] (boards (db st)) = Some brd" and "boardId \<noteq> []"
    and "req_boardId bd = Some boardId" and "req_actions bd = Some acts"
    and "logDate = js_or (req_date bd) (isoDate clock0)"
    and "stored =
           (case tbl_get [boardId, logDate] (logs (db st)) of
              None \<Rightarrow>
                \<lparr>log_id = newId, log_boardId = boardId, log_userId = userId,
                 date = logDate, completedAt = now, actions = acts\<rparr>
            | Some lg \<Rightarrow> lg\<lparr>actions := actions lg @ acts, completedAt := now\<rparr>)"
    and "post_log userId bd newId clock0 now st = (r, st')"
  shows "if refused (KvGet [''board'', userId, boardId]) st = None
          \<and> refused (KvGet [''log'', boardId, logDate]) st = None
          \<and> refused (KvSet [''log'', boardId, logDate] (VLog stored)) st = None
         then body r = Success (DLog stored)
            \<and> status r = (case tbl_get [boardId, logDate] (logs (db st)) of None \<Rightarrow> 201 | Some lg \<Rightarrow> 200)
            \<and> tbl_get [boardId, logDate] (logs (db st')) = Some stored
            \<and> length (filter (\<lambda>e. fst e = [boardId, logDate]) (logs (db st'))) = 1
            \<and> (\<forall>k. k \<noteq> [boardId, logDate] \<longrightarrow> tbl_get k (logs (db st')) = tbl_get k (logs (db st)))
         else status r = 500 \<and> db st' = db st"
  using assms
  by (auto simp: post_log_def getBoard_def getLog_def setLog_def async_defs created_def
      success_def error_def tbl_get_set tbl_set_count Let_def split: option.splits if_splits)

text \<open>
  Claim C1. \<^verbatim>\<open>POST /api/logs\<close> for a board the caller owns, with actions, works on the
  key of the board and the date (the date of the body, or today's when the body has
  none). When the store accepts the two reads and the write: without a log under the key
  the answer is 201 with a new log that has the fresh id and the given actions; with one
  it is 200 with the old log, the given actions appended after its own and
  \<^verbatim>\<open>completedAt\<close> set to the current instant; in both cases the log of the answer is what
  the store then holds under the key, the key has one entry, and every other log is as
  before. When the store refuses one of the calls, the answer is 500 and the stored data
  is unchanged.
\<close>

theorem post_log_upsert:
  assumes "tbl_get [userId, boardId] (boards (db st)) = Some brd" and "boardId \<noteq> []"
    and "req_boardId bd = Some boardId" and "req_actions bd = Some acts"
    and "logDate = js_or (req_date bd) (isoDate clock0)"
    and "stored =
           (case tbl_get [boardId, logDate] (logs (db st)) of
              None \<Rightarrow>
                \<lparr>log_id = newId, log_boardId = boardId, log_userId = userId,
                 date = logDate, completedAt = now, actions = acts\<rparr>
            | Some lg \<Rightarrow> lg\<lparr>actions := actions lg @ acts, completedAt := now\<rparr>)"
    and "post_log userId bd newId clock0 now st = (r, st')"
  shows "if refused (KvGet [''board'', userId, boardId]) st = None
          \<and> refused (KvGet [''log'', boardId, logDate]) st = None
          \<and> refused (KvSet [''log'', boardId, logDate] (VLog stored)) st = None
         then body r = Success (DLog stored)
            \<and> status r = (case tbl_get [boardId, logDate] (logs (db st)) of None \<Rightarrow> 201 | Some lg \<Rightarrow> 200)
            \<and> tbl_get [boardId, logDate] (logs (db st')) = Some stored
            \<and> length (filter (\<lambda>e. fst e = [boardId, logDate]) (logs (db st'))) = 1
            \<and> (\<forall>k. k \<noteq> [boardId, logDate] \<longrightarrow> tbl_get k (logs (db st')) = tbl_get k (logs (db st)))
         else status r = 500 \<and> db st' = db st"
  by (rule post_log_outcome [OF assms])

theorem post_log_upsert_witness:
  "(let (r, st') = post_log ''u1'' exLogBody ''l2'' ''2024-05-03T07:00:00.000Z''
                     ''2024-05-02T09:00:01.000Z'' exKv
    in r = \<lparr>status = 200, body = Success (DLog
              (exLog\<lparr>actions := [actX, actY], completedAt := ''2024-05-02T09:00:01.000Z''\<rparr>))\<rparr>
     \<and> length (filter (\<lambda>e. fst e = [''b1'', ''2024-05-02'']) (logs (db st'))) = 1)
   \<and> (let (r, st') = post_log ''u1'' (exLogBody\<lparr>req_date := None\<rparr>) ''l2''
                        ''2024-05-03T07:00:00.000Z'' ''2024-05-03T07:00:01.000Z'' exKv
      in r = \<lparr>status = 201, body = Success (DLog
                \<lparr>log_id = ''l2'', log_boardId = ''b1'', log_userId = ''u1'', date = ''2024-05-03'',
                 completedAt = ''2024-05-03T07:00:01.000Z'', actions = [actY]\<rparr>)\<rparr>
       \<and> tbl_get [''b1'', ''2024-05-02''] (logs (db st')) = Some exLog)
   \<and> (let (r, st') = post_log ''u1'' (exLogBody\<lparr>req_date := Some (replicate 3000 (CHR ''9''))\<rparr>)
                        ''l2'' ''2024-05-03T07:00:00.000Z'' ''2024-05-03T07:00:01.000Z'' exKv
      in status r = 500 \<and> db st' = db exKv)"
proof -
  let ?c0 = "''2024-05-03T07:00:00.000Z''"
  let ?appended = "exLog\<lparr>actions := [actX, actY], completedAt := ''2024-05-02T09:00:01.000Z''\<rparr>"
  let ?new = "\<lparr>log_id = ''l2'', log_boardId = ''b1'', log_userId = ''u1'', date = ''2024-05-03'',
                 completedAt = ''2024-05-03T07:00:01.000Z'', actions = [actY]\<rparr>"
  let ?long = "replicate 3000 (CHR ''9'')"
  let ?newLong = "\<lparr>log_id = ''l2'', log_boardId = ''b1'', log_userId = ''u1'', date = ?long,
                 completedAt = ''2024-05-03T07:00:01.000Z'', actions = [actY]\<rparr>"
  have longne: "?long \<noteq> ''2024-05-02''"
    by (auto dest: arg_cong [where f = length])
  have board: "tbl_get [''u1'', ''b1''] (boards (db exKv)) = Some exBoard"
    and old: "tbl_get [''b1'', ''2024-05-02''] (logs (db exKv)) = Some exLog"
    and free: "tbl_get [''b1'', ''2024-05-03''] (logs (db exKv)) = None"
    and freeLong: "tbl_get [''b1'', ?long] (logs (db exKv)) = None"
    using longne by (simp_all add: exKv_def tbl_get_def)
  have bd: "req_boardId exLogBody = Some ''b1''" "req_actions exLogBody = Some [actY]"
    "''2024-05-02'' = js_or (req_date exLogBody) (isoDate ?c0)"
    and bd0: "req_boardId (exLogBody\<lparr>req_date := None\<rparr>) = Some ''b1''"
    "req_actions (exLogBody\<lparr>req_date := None\<rparr>) = Some [actY]"
    "''2024-05-03'' = js_or (req_date (exLogBody\<lparr>req_date := None\<rparr>)) (isoDate ?c0)"
    and bdL: "req_boardId (exLogBody\<lparr>req_date := Some ?long\<rparr>) = Some ''b1''"
    "req_actions (exLogBody\<lparr>req_date := Some ?long\<rparr>) = Some [actY]"
    "?long = js_or (req_date (exLogBody\<lparr>req_date := Some ?long\<rparr>)) (isoDate ?c0)"
    by (simp_all add: exLogBody_def isoDate_def)
  have s1: "?appended =
      (case tbl_get [''b1'', ''2024-05-02''] (logs (db exKv)) of
         None \<Rightarrow> \<lparr>log_id = ''l2'', log_boardId = ''b1'', log_userId = ''u1'', date = ''2024-05-02'',
                   completedAt = ''2024-05-02T09:00:01.000Z'', actions = [actY]\<rparr>
       | Some lg \<Rightarrow> lg\<lparr>actions := actions lg @ [actY], completedAt := ''2024-05-02T09:00:01.000Z''\<rparr>)"
    by (simp add: old) (simp add: exLog_def)
  have s2: "?new =
      (case tbl_get [''b1'', ''2024-05-03''] (logs (db exKv)) of
         None \<Rightarrow> ?new
       | Some lg \<Rightarrow> lg\<lparr>actions := actions lg @ [actY], completedAt := ''2024-05-03T07:00:01.000Z''\<rparr>)"
    by (simp add: free)
  have s3: "?newLong =
      (case tbl_get [''b1'', ?long] (logs (db exKv)) of
         None \<Rightarrow> ?newLong
       | Some lg \<Rightarrow> lg\<lparr>actions := actions lg @ [actY], completedAt := ''2024-05-03T07:00:01.000Z''\<rparr>)"
    by (simp add: freeLong)
  have accepted: "refused (KvGet [''board'', ''u1'', ''b1'']) exKv = None"
    "refused (KvGet [''log'', ''b1'', ''2024-05-02'']) exKv = None"
    "refused (KvSet [''log'', ''b1'', ''2024-05-02''] (VLog ?appended)) exKv = None"
    "refused (KvGet [''log'', ''b1'', ''2024-05-03'']) exKv = None"
    "refused (KvSet [''log'', ''b1'', ''2024-05-03''] (VLog ?new)) exKv = None"
    by (simp_all add: exKv_def refused.simps)
  have too_long: "refused (KvGet [''log'', ''b1'', ?long]) exKv \<noteq> None"
    by (simp add: exKv_def refused.simps)
  have 1: "fst (post_log ''u1'' exLogBody ''l2'' ?c0 ''2024-05-02T09:00:01.000Z'' exKv) =
        \<lparr>status = 200, body = Success (DLog ?appended)\<rparr>
      \<and> length (filter (\<lambda>e. fst e = [''b1'', ''2024-05-02''])
           (logs (db (snd (post_log ''u1'' exLogBody ''l2'' ?c0 ''2024-05-02T09:00:01.000Z'' exKv))))) = 1"
    using post_log_upsert [OF board _ bd s1 surjective_pairing] accepted(1-3) old
    by (cases "fst (post_log ''u1'' exLogBody ''l2'' ?c0 ''2024-05-02T09:00:01.000Z'' exKv)") simp
  have 2: "fst (post_log ''u1'' (exLogBody\<lparr>req_date := None\<rparr>) ''l2'' ?c0 ''2024-05-03T07:00:01.000Z'' exKv) =
        \<lparr>status = 201, body = Success (DLog ?new)\<rparr>
      \<and> tbl_get [''b1'', ''2024-05-02'']
          (logs (db (snd (post_log ''u1'' (exLogBody\<lparr>req_date := None\<rparr>) ''l2'' ?c0
             ''2024-05-03T07:00:01.000Z'' exKv)))) = Some exLog"
    using post_log_upsert [OF board _ bd0 s2 surjective_pairing] accepted(1,4,5) free old
    by (cases "fst (post_log ''u1'' (exLogBody\<lparr>req_date := None\<rparr>) ''l2'' ?c0
          ''2024-05-03T07:00:01.000Z'' exKv)") simp
  have 3: "status (fst (post_log ''u1'' (exLogBody\<lparr>req_date := Some ?long\<rparr>) ''l2'' ?c0
          ''2024-05-03T07:00:01.000Z'' exKv)) = 500
      \<and> db (snd (post_log ''u1'' (exLogBody\<lparr>req_date := Some ?long\<rparr>) ''l2'' ?c0
          ''2024-05-03T07:00:01.000Z'' exKv)) = db exKv"
    using post_log_upsert [OF board _ bdL s3 surjective_pairing] too_long
    by simp
  from 1 2 3 show ?thesis
    by (simp add: split_def)
qed

text \<open>
  Posting the actions \<open>xs\<close> and then \<open>ys\<close> for the same board and date, starting
  without a log, leaves one log with the id of the first post and the actions \<open>xs @ ys\<close>.
\<close>

lemma post_log_twice_merges:
  assumes "tbl_get [userId, boardId] (boards (db st)) = Some brd" and "boardId \<noteq> []"
    and "d \<noteq> []" and "tbl_get [boardId, d] (logs (db st)) = None"
    and "post_log userId \<lparr>req_boardId = Some boardId, req_actions = Some xs, req_date = Some d\<rparr>
           id1 c1 now1 st = (r1, st1)"
    and "post_log userId \<lparr>req_boardId = Some boardId, req_actions = Some ys, req_date = Some d\<rparr>
           id2 c2 now2 st1 = (r2, st2)"
    and "status r1 = 201" and "status r2 = 200"
  shows "tbl_get [boardId, d] (logs (db st2)) =
            Some \<lparr>log_id = id1, log_boardId = boardId, log_userId = userId, date = d,
                  completedAt = now2, actions = xs @ ys\<rparr>
       \<and> length (filter (\<lambda>e. fst e = [boardId, d]) (logs (db st2))) = 1"
proof -
  let ?bd = "\<lambda>acts. \<lparr>req_boardId = Some boardId, req_actions = Some acts, req_date = Some d\<rparr>"
  let ?l1 = "\<lparr>log_id = id1, log_boardId = boardId, log_userId = userId, date = d,
               completedAt = now1, actions = xs\<rparr>"
  let ?l2 = "?l1\<lparr>actions := xs @ ys, completedAt := now2\<rparr>"
  have d: "d = js_or (req_date (?bd acts)) (isoDate c)" for acts c
    using assms(3) by simp
  have s1: "?l1 = (case tbl_get [boardId, d] (logs (db st)) of
              None \<Rightarrow> ?l1 | Some lg \<Rightarrow> lg\<lparr>actions := actions lg @ xs, completedAt := now1\<rparr>)"
    by (simp add: assms(4))
  from post_log_outcome [OF assms(1,2) _ _ d s1 assms(5)] assms(7)
  have first: "tbl_get [boardId, d] (logs (db st1)) = Some ?l1" "boards (db st1) = boards (db st)"
    using assms(1,2,3,4,5)
    by (auto simp: post_log_def getBoard_def getLog_def setLog_def async_defs created_def
        success_def error_def tbl_get_set Let_def split: option.splits if_splits)
  have board1: "tbl_get [userId, boardId] (boards (db st1)) = Some brd"
    using first(2) assms(1) by simp
  have s2: "?l2 = (case tbl_get [boardId, d] (logs (db st1)) of
              None \<Rightarrow> \<lparr>log_id = id2, log_boardId = boardId, log_userId = userId, date = d,
                        completedAt = now2, actions = ys\<rparr>
            | Some lg \<Rightarrow> lg\<lparr>actions := actions lg @ ys, completedAt := now2\<rparr>)"
    by (simp add: first(1))
  from post_log_outcome [OF board1 assms(2) _ _ d s2 assms(6)] assms(8)
  show ?thesis
    by (auto split: if_splits)
qed

section \<open>Lookups by a bare id\<close>

text \<open>
  Claim C2 says that dismiss-notification, delete-notification and delete-log find a
  record of the caller wherever it is stored. The code does not: the notification routes
  scan the prefix \<^verbatim>\<open>["notif", ""]\<close>, which holds only what is filed under a board whose id
  is the empty string, and the log route scans the logs of the board whose id is the log
  id. Here the first user's notification \<open>n1\<close> and log \<open>l1\<close> are stored under the
  user's own board \<open>b1\<close>, and the three routes answer the user 404 after a scan that
  cannot contain them.
\<close>

theorem bare_id_scan_misses_stored_record:
  "tbl_get [''u1'', ''b1''] (boards (db exKv)) = Some exBoard
   \<and> tbl_get [''b1'', ''n1''] (notifs (db exKv)) = Some exNotification
   \<and> notif_id exNotification = ''n1'' \<and> notif_userId exNotification = ''u1''
   \<and> dismiss_notification ''u1'' ''n1'' exKv =
        (\<lparr>status = 404, body = Failure ''Notification not found''\<rparr>,
         exKv\<lparr>calls := [KvList [''notif'', '''']]\<rparr>)
   \<and> delete_notification ''u1'' ''n1'' exKv =
        (\<lparr>status = 404, body = Failure ''Notification not found''\<rparr>,
         exKv\<lparr>calls := [KvList [''notif'', '''']]\<rparr>)
   \<and> tbl_get [''b1'', ''2024-05-02''] (logs (db exKv)) = Some exLog
   \<and> log_id exLog = ''l1'' \<and> log_userId exLog = ''u1''
   \<and> delete_log ''u1'' ''l1'' exKv =
        (\<lparr>status = 404, body = Failure ''Log not found''\<rparr>,
         exKv\<lparr>calls := [KvGet [''board'', ''u1'', ''''], KvList [''log'', ''l1'']]\<rparr>)"
  by (simp add: exKv_def exNotification_def exLog_def tbl_get_def tbl_list_def
      dismiss_notification_def delete_notification_def delete_log_def
      getNotificationsByBoardId_def getLogsByBoardId_def getBoard_def async_defs refused.simps
      notFound_def error_def)

text \<open>
  The same holds in every store without a notification filed under the empty board id,
  and \<^verbatim>\<open>POST /api/notify\<close>, the one route that files a notification under a new key,
  never files one there.
\<close>

lemma bare_id_notification_routes_scan_empty_board:
  assumes "\<forall>e\<in>set (notifs (db st)). \<not> strict_prefix [[]] (fst e)"
  shows "fst (dismiss_notification userId notifId st) =
           \<lparr>status = 404, body = Failure ''Notification not found''\<rparr>"
    and "fst (delete_notification userId notifId st) =
           \<lparr>status = 404, body = Failure ''Notification not found''\<rparr>"
proof -
  from assms have "tbl_list [[]] (notifs (db st)) = []"
    by (auto simp: tbl_list_def filter_empty_conv)
  then show "fst (dismiss_notification userId notifId st) =
           \<lparr>status = 404, body = Failure ''Notification not found''\<rparr>"
    and "fst (delete_notification userId notifId st) =
           \<lparr>status = 404, body = Failure ''Notification not found''\<rparr>"
    by (simp_all add: dismiss_notification_def delete_notification_def
        getNotificationsByBoardId_def async_defs notFound_def error_def)
qed

lemma post_notification_files_under_board:
  assumes "\<forall>e\<in>set (notifs (db st)). \<not> strict_prefix [[]] (fst e)"
  shows "\<forall>e\<in>set (notifs (db (snd (post_notification userId bd newId st)))).
           \<not> strict_prefix [[]] (fst e)"
proof (cases "truthy (nreq_boardId bd)")
  case False
  with assms show ?thesis
    by (simp add: post_notification_def async_defs)
next
  case True
  then obtain b where b: "nreq_boardId bd = Some b" "b \<noteq> []"
    by (cases "nreq_boardId bd") auto
  with assms show ?thesis
    by (auto simp: post_notification_def getBoard_def setNotification_def async_defs
        set_tbl_set Let_def split: option.splits)
qed

section \<open>Accounts: a username is registered once\<close>

lemma getUserByUsername_db: "db (snd (getUserByUsername name st)) = db st"
  by (simp add: getUserByUsername_def getUserById_def async_defs split: option.splits)

lemma getUserByUsername_fst:
  "fst (getUserByUsername name st) =
     (case refused (KvGet [''user_by_username'', name]) st of
        Some thrown \<Rightarrow> Inl thrown
      | None \<Rightarrow>
          (case tbl_get [name] (usernames (db st)) of
             None \<Rightarrow> Inr None
           | Some i \<Rightarrow>
               if i = [] then Inr None
               else (case refused (KvGet [''user'', i]) st of
                       Some thrown \<Rightarrow> Inl thrown
                     | None \<Rightarrow> Inr (tbl_get [i] (users (db st))))))"
  by (simp add: getUserByUsername_def getUserById_def async_defs split: option.splits)

lemma getUserByUsername_same_data:
  "db st' = db st \<Longrightarrow> fault st' = fault st \<Longrightarrow>
   fst (getUserByUsername name st') = fst (getUserByUsername name st)"
proof -
  assume "db st' = db st" and f: "fault st' = fault st"
  moreover from f have "refused c st' = refused c st" for c
    by (cases c) (simp_all add: refused.simps)
  ultimately show ?thesis
    by (simp add: getUserByUsername_fst split: option.splits)
qed

lemma register_fault: "fault (snd (register R bd newId now st)) = fault st"
  by (simp add: register_def getUserByUsername_def getUserById_def setUser_def async_defs
      Let_def split: option.splits sum.splits prod.splits)

text \<open>
  Claim C6, as stated, fails: after a registration of \<open>ada\<close> that succeeded, a second
  registration of \<open>ada\<close> with a password of three characters is answered with 400, not
  409. The handler checks the body before it looks the username up.
\<close>

theorem register_short_password_counterexample:
  "status (fst (register exRuntime exCredentials ''u1'' ''2024-05-01T09:00:00.000Z'' emptyKv)) = 201
   \<and> status (fst (register exRuntime (exCredentials\<lparr>req_password := Some ''abc''\<rparr>) ''u9''
        ''2024-05-01T09:30:00.000Z''
        (snd (register exRuntime exCredentials ''u1'' ''2024-05-01T09:00:00.000Z'' emptyKv)))) = 400
   \<and> status (fst (register exRuntime (exCredentials\<lparr>req_password := Some ''abc''\<rparr>) ''u9''
        ''2024-05-01T09:30:00.000Z''
        (snd (register exRuntime exCredentials ''u1'' ''2024-05-01T09:00:00.000Z'' emptyKv)))) \<noteq> 409"
  by (simp add: register_def exCredentials_def getUserByUsername_def getUserById_def setUser_def
      async_defs refused.simps emptyKv_def emptyDb_def tbl_get_def tbl_set_def tbl_delete_def
      created_def success_def error_def hashPassword_def exRuntime_def Let_def)

text \<open>
  Claim C6, amended. When a user with the username exists, a further registration of
  the username with a password of at least six characters answers 409
  \<^verbatim>\<open>Username already exists\<close>, and one with a missing or shorter password answers 400.
  Either way the stored data is unchanged, and the username still leads to the same
  user: the record under \<^verbatim>\<open>("user", id)\<close> and the index entry
  \<^verbatim>\<open>("user_by_username", username)\<close> are as they were.
\<close>

theorem register_existing_username:
  assumes "fst (getUserByUsername name st) = Inr (Some u)" and "req_username bd = Some name"
  shows "status (fst (register R bd newId now st)) =
           (case req_password bd of
              None \<Rightarrow> 400
            | Some p \<Rightarrow> if name = [] \<or> length p < 6 then 400 else 409)
       \<and> (name \<noteq> [] \<and> (case req_password bd of None \<Rightarrow> False | Some p \<Rightarrow> 6 \<le> length p) \<longrightarrow>
            fst (register R bd newId now st) =
              \<lparr>status = 409, body = Failure ''Username already exists''\<rparr>)
       \<and> db (snd (register R bd newId now st)) = db st
       \<and> fst (getUserByUsername name (snd (register R bd newId now st))) = Inr (Some u)"
proof -
  obtain st1 where g: "getUserByUsername name st = (Inr (Some u), st1)"
    using assms(1) by (cases "getUserByUsername name st") simp
  have st1: "db st1 = db st"
    using getUserByUsername_db [of name st] g by simp
  have r: "status (fst (register R bd newId now st)) =
           (case req_password bd of
              None \<Rightarrow> 400
            | Some p \<Rightarrow> if name = [] \<or> length p < 6 then 400 else 409)
       \<and> (name \<noteq> [] \<and> (case req_password bd of None \<Rightarrow> False | Some p \<Rightarrow> 6 \<le> length p) \<longrightarrow>
            fst (register R bd newId now st) =
              \<lparr>status = 409, body = Failure ''Username already exists''\<rparr>)
       \<and> db (snd (register R bd newId now st)) = db st"
  proof (cases "req_password bd")
    case None
    with assms(2) show ?thesis
      by (simp add: register_def error_def returns_def tryCatch_def)
  next
    case (Some p)
    show ?thesis
    proof (cases "name = [] \<or> length p < 6")
      case True
      with Some assms(2) show ?thesis
        by (auto simp: register_def error_def returns_def tryCatch_def)
    next
      case False
      then have "name \<noteq> []" "p \<noteq> []" "\<not> length p < 6"
        by auto
      with Some assms(2) g st1 show ?thesis
        by (simp add: register_def error_def returns_def andThen_def tryCatch_def)
    qed
  qed
  then have "fst (getUserByUsername name (snd (register R bd newId now st))) =
      fst (getUserByUsername name st)"
    by (intro getUserByUsername_same_data register_fault) simp
  with r assms(1) show ?thesis
    by simp
qed

theorem register_existing_username_witness:
  "status (fst (register exRuntime exCredentials ''u1'' ''2024-05-01T09:00:00.000Z'' emptyKv)) = 201
   \<and> fst (register exRuntime exCredentials ''u9'' ''2024-05-01T09:30:00.000Z''
        (snd (register exRuntime exCredentials ''u1'' ''2024-05-01T09:00:00.000Z'' emptyKv))) =
       \<lparr>status = 409, body = Failure ''Username already exists''\<rparr>
   \<and> fst (getUserByUsername ''ada''
        (snd (register exRuntime exCredentials ''u9'' ''2024-05-01T09:30:00.000Z''
          (snd (register exRuntime exCredentials ''u1'' ''2024-05-01T09:00:00.000Z'' emptyKv))))) =
       Inr (Some \<lparr>user_id = ''u1'', username = ''ada'', passwordHash = ''#secret1'',
                  user_createdAt = ''2024-05-01T09:00:00.000Z''\<rparr>)"
proof -
  let ?st1 = "snd (register exRuntime exCredentials ''u1'' ''2024-05-01T09:00:00.000Z'' emptyKv)"
  let ?u = "\<lparr>user_id = ''u1'', username = ''ada'', passwordHash = ''#secret1'',
                  user_createdAt = ''2024-05-01T09:00:00.000Z''\<rparr>"
  have first: "register exRuntime exCredentials ''u1'' ''2024-05-01T09:00:00.000Z'' emptyKv =
      (\<lparr>status = 201, body = Success (DRegistered ''User created successfully''
          (userWithoutPassword ?u))\<rparr>,
       \<lparr>db = emptyDb\<lparr>users := [([''u1''], ?u)], usernames := [([''ada''], ''u1'')]\<rparr>,
        calls = [KvGet [''user_by_username'', ''ada''], KvSet [''user'', ''u1''] (VUser ?u),
                 KvSet [''user_by_username'', ''ada''] (VId ''u1'')],
        fault = exFault\<rparr>)"
    by (simp add: register_def exCredentials_def getUserByUsername_def setUser_def
        async_defs refused.simps emptyKv_def emptyDb_def tbl_get_def tbl_set_def tbl_delete_def
        created_def success_def hashPassword_def exRuntime_def Let_def)
  have found: "fst (getUserByUsername ''ada'' ?st1) = Inr (Some ?u)"
    by (simp add: first getUserByUsername_fst refused.simps tbl_get_def emptyDb_def)
  have bd: "req_username exCredentials = Some ''ada''" "req_password exCredentials = Some ''secret1''"
    by (simp_all add: exCredentials_def)
  from register_existing_username [OF found bd(1), of exRuntime "''u9''" "''2024-05-01T09:30:00.000Z''"]
  show ?thesis
    by (simp add: bd(2) first)
qed

text \<open>
  A registration that succeeded leaves the user where the next registration of the
  username looks, provided the generated id is not empty and the store accepts the
  read of the new record.
\<close>

lemma register_success_then_found:
  assumes "register R bd newId now st = (r, st1)" and "status r = 201"
    and "req_username bd = Some name" and "req_password bd = Some p" and "newId \<noteq> []"
    and "refused (KvGet [''user'', newId]) st = None"
  shows "fst (getUserByUsername name st1) =
           Inr (Some \<lparr>user_id = newId, username = name, passwordHash = hashPassword R p,
                      user_createdAt = now\<rparr>)"
proof -
  obtain found st0 where g: "getUserByUsername name st = (found, st0)"
    by (cases "getUserByUsername name st")
  have st0: "db st0 = db st" "fault st0 = fault st"
    using g getUserByUsername_db [of name st]
    by (auto simp: getUserByUsername_def getUserById_def async_defs split: option.splits if_splits)
  have same: "refused c st0 = refused c st" for c
    using st0(2) by (cases c) (simp_all add: refused.simps)
  have read: "refused (KvGet [''user_by_username'', name]) st = None"
    using assms(1-4) g
    by (auto simp: register_def getUserByUsername_def getUserById_def error_def async_defs
        split: option.splits if_splits sum.splits)
  have fault1: "fault st1 = fault st"
    using register_fault [of R bd newId now st] assms(1) by simp
  have same1: "refused c st1 = refused c st" for c
    using fault1 by (cases c) (simp_all add: refused.simps)
  have "tbl_get [name] (usernames (db st1)) = Some newId
      \<and> tbl_get [newId] (users (db st1)) =
          Some \<lparr>user_id = newId, username = name, passwordHash = hashPassword R p,
                user_createdAt = now\<rparr>"
    using assms(1-4) g same
    by (auto simp: register_def setUser_def error_def created_def success_def
        reading_def writing_def returns_def andThen_def tryCatch_def called_def
        tbl_get_set Let_def split: option.splits if_splits sum.splits)
  then show ?thesis
    using read assms(5,6) by (simp add: getUserByUsername_fst same1)
qed

section \<open>User objects in responses\<close>

lemma register_user_object:
  assumes "body (fst (register R bd newId now st)) = Success (DRegistered msg obj)"
  shows "\<exists>u. tbl_get [newId] (users (db (snd (register R bd newId now st)))) = Some u
             \<and> obj = userWithoutPassword u"
proof -
  obtain found st1 where g: "getUserByUsername (the (req_username bd)) st = (found, st1)"
    by (cases "getUserByUsername (the (req_username bd)) st")
  show ?thesis
    using assms g
    by (auto simp: register_def error_def created_def success_def setUser_def
        reading_def writing_def returns_def andThen_def tryCatch_def called_def
        tbl_get_set Let_def split: option.splits if_splits sum.splits)
qed

lemma login_user_object:
  assumes "body (fst (login R nowMs bd st)) = Success (DLogin tok obj)"
  shows "\<exists>name u. req_username bd = Some name \<and> fst (getUserByUsername name st) = Inr (Some u)
             \<and> obj = userWithoutPassword u"
proof -
  obtain found st1 where g: "getUserByUsername (the (req_username bd)) st = (found, st1)"
    by (cases "getUserByUsername (the (req_username bd)) st")
  show ?thesis
    using assms g
    by (auto simp: login_def error_def success_def returns_def andThen_def tryCatch_def
        Let_def split: option.splits if_splits sum.splits)
qed

lemma me_user_object:
  assumes "body (fst (me userId st)) = Success (DUser obj)"
  shows "\<exists>u. tbl_get [userId] (users (db st)) = Some u \<and> obj = userWithoutPassword u"
  using assms
  by (auto simp: me_def getUserById_def error_def success_def async_defs
      split: option.splits)

lemma exRuntime_key: "getKey exRuntime = ''your-secret-key-change-in-production''"
  by (simp add: getKey_def JWT_SECRET_def exRuntime_def)

lemma exRuntime_token:
  "generateToken exRuntime 1714554000000 ''u1'' ''ada'' =
     ''your-secret-key-change-in-production.u1.ada''"
  by (simp add: generateToken_def djwt_create_def exRuntime_key) (simp add: exRuntime_def)

lemma exRuntime_decode:
  "jwt_decode exRuntime ''your-secret-key-change-in-production.u1.ada'' =
     Some (exPayload, ''your-secret-key-change-in-production'')"
  "jwt_decode exRuntime ''another-key.u1.ada'' = Some (exPayload, ''another-key'')"
  "jwt_decode exRuntime ''forged.token.value'' = None"
  by (simp_all add: exRuntime_def exTokens_def)

text \<open>
  Claim C10. The user object in a successful answer of \<^verbatim>\<open>POST /api/register\<close>,
  \<^verbatim>\<open>POST /api/login\<close> and \<^verbatim>\<open>GET /api/me\<close> is the stored user (the one just written under
  the new id, the one found by the username, the one under the caller's id) without its
  \<^verbatim>\<open>passwordHash\<close>: the object has no such property, and every other property has the
  value it has in the stored user. No other payload of a response holds a user.
\<close>

theorem responses_omit_passwordHash:
  "(\<forall>msg obj. body (fst (register R bd newId now st)) = Success (DRegistered msg obj) \<longrightarrow>
      (\<exists>u. tbl_get [newId] (users (db (snd (register R bd newId now st)))) = Some u
          \<and> obj = userWithoutPassword u))
   \<and> (\<forall>tok obj. body (fst (login R nowMs bd' st)) = Success (DLogin tok obj) \<longrightarrow>
      (\<exists>name u. req_username bd' = Some name \<and> fst (getUserByUsername name st) = Inr (Some u)
          \<and> obj = userWithoutPassword u))
   \<and> (\<forall>obj. body (fst (me userId st)) = Success (DUser obj) \<longrightarrow>
      (\<exists>u. tbl_get [userId] (users (db st)) = Some u \<and> obj = userWithoutPassword u))
   \<and> (\<forall>u k. map_of (userWithoutPassword u) k =
         (if k = ''passwordHash'' then None else map_of (user_object u) k))"
proof -
  have "map_of (userWithoutPassword u) k =
         (if k = ''passwordHash'' then None else map_of (user_object u) k)" for u k
    by (simp add: userWithoutPassword_def user_object_def)
  then show ?thesis
    using register_user_object login_user_object me_user_object by blast
qed

theorem responses_omit_passwordHash_witness:
  "body (fst (register exRuntime exCredentials ''u1'' ''2024-05-01T09:00:00.000Z'' emptyKv)) =
     Success (DRegistered ''User created successfully''
       [(''id'', ''u1''), (''username'', ''ada''), (''createdAt'', ''2024-05-01T09:00:00.000Z'')])
   \<and> body (fst (login exRuntime 1714554000000 exCredentials exAuthKv)) =
     Success (DLogin ''your-secret-key-change-in-production.u1.ada''
       [(''id'', ''u1''), (''username'', ''ada''), (''createdAt'', ''2024-05-01T09:00:00.000Z'')])
   \<and> body (fst (me ''u1'' exAuthKv)) =
     Success (DUser
       [(''id'', ''u1''), (''username'', ''ada''), (''createdAt'', ''2024-05-01T09:00:00.000Z'')])
   \<and> map_of (user_object exUser) ''passwordHash'' = Some ''#secret1''"
proof -
  let ?obj = "[(''id'', ''u1''), (''username'', ''ada''), (''createdAt'', ''2024-05-01T09:00:00.000Z'')]"
  have users: "tbl_get [''u1''] (users (db exAuthKv)) = Some exUser"
    and index: "tbl_get [''ada''] (usernames (db exAuthKv)) = Some ''u1''"
    by (simp_all add: exAuthKv_def tbl_get_def)
  have found: "getUserByUsername ''ada'' exAuthKv =
      (Inr (Some exUser), exAuthKv\<lparr>calls := calls exAuthKv @
         [KvGet [''user_by_username'', ''ada''], KvGet [''user'', ''u1'']]\<rparr>)"
    by (simp add: getUserByUsername_def getUserById_def async_defs refused.simps users index)
  have free: "getUserByUsername ''ada'' emptyKv =
      (Inr None, emptyKv\<lparr>calls := [KvGet [''user_by_username'', ''ada'']]\<rparr>)"
    by (simp add: getUserByUsername_def async_defs refused.simps emptyKv_def emptyDb_def tbl_get_def)
  have bd: "req_username exCredentials = Some ''ada''" "req_password exCredentials = Some ''secret1''"
    by (simp_all add: exCredentials_def)
  have pw: "verifyPassword exRuntime ''secret1'' (passwordHash exUser)"
    by (simp add: verifyPassword_def exRuntime_def exUser_def)
  have tok: "generateToken exRuntime 1714554000000 (user_id exUser) (username exUser) =
      ''your-secret-key-change-in-production.u1.ada''"
    using exRuntime_token by (simp add: exUser_def)
  have obj: "userWithoutPassword exUser = ?obj"
    by (simp add: userWithoutPassword_def user_object_def exUser_def)
  have r: "body (fst (register exRuntime exCredentials ''u1'' ''2024-05-01T09:00:00.000Z'' emptyKv)) =
      Success (DRegistered ''User created successfully'' ?obj)"
    by (simp add: register_def exCredentials_def getUserByUsername_def setUser_def async_defs
        refused.simps emptyKv_def emptyDb_def tbl_get_def tbl_set_def tbl_delete_def
        hashPassword_def exRuntime_def created_def success_def userWithoutPassword_def
        user_object_def Let_def)
  have l: "body (fst (login exRuntime 1714554000000 exCredentials exAuthKv)) =
      Success (DLogin ''your-secret-key-change-in-production.u1.ada'' ?obj)"
    by (simp add: login_def bd found pw tok obj success_def returns_def andThen_def tryCatch_def)
  have m: "body (fst (me ''u1'' exAuthKv)) = Success (DUser ?obj)"
    by (simp add: me_def getUserById_def users obj success_def async_defs refused.simps)
  note T = responses_omit_passwordHash [of exRuntime exCredentials "''u1''"
      "''2024-05-01T09:00:00.000Z''" emptyKv 1714554000000 exCredentials "''u1''"]
  note U = responses_omit_passwordHash [of exRuntime exCredentials "''u1''"
      "''2024-05-01T09:00:00.000Z''" exAuthKv 1714554000000 exCredentials "''u1''"]
  from T r have "\<exists>u. ?obj = userWithoutPassword u"
    by blast
  moreover from U l have "\<exists>u. fst (getUserByUsername ''ada'' exAuthKv) = Inr (Some u) \<and> ?obj = userWithoutPassword u"
    using bd(1) by auto
  moreover from U m have "\<exists>u. tbl_get [''u1''] (users (db exAuthKv)) = Some u \<and> ?obj = userWithoutPassword u"
    by blast
  moreover have "map_of (user_object exUser) ''passwordHash'' = Some ''#secret1''"
    by (simp add: user_object_def exUser_def)
  ultimately show ?thesis
    using r l m by blast
qed

section \<open>Requests without a valid bearer token\<close>

lemma authMiddleware_rejects:
  assumes "authHeader = None
         \<or> (\<exists>h. authHeader = Some h
               \<and> (\<not> prefix ''Bearer '' h \<or> verifyToken R nowMs (drop 7 h) = None))"
  shows "status (fst (authMiddleware R nowMs authHeader next st)) = 401"
    and "snd (authMiddleware R nowMs authHeader next st) = st"
  using assms
  by (auto simp: authMiddleware_def unauthorized_def error_def split: option.splits)

lemma authenticated_request_reaches_store:
  "serve exRuntime
     (exRequest\<lparr>authorization := Some ''Bearer your-secret-key-change-in-production.u1.ada''\<rparr>)
     (GetBoard ''b1'') exKv =
   (\<lparr>status = 200, body = Success (DBoard exBoard)\<rparr>,
    exKv\<lparr>calls := [KvGet [''board'', ''u1'', ''b1'']]\<rparr>)"
proof -
  have "verifyToken exRuntime 1714554000000 ''your-secret-key-change-in-production.u1.ada'' =
      Some exPayload"
    by (simp add: verifyToken_def djwt_verify_def exRuntime_key exRuntime_decode)
      (simp add: exRuntime_def exPayload_def)
  then show ?thesis
    by (simp add: serve_def authMiddleware_def exRequest_def exPayload_def get_board_def
        getBoard_def async_defs refused.simps success_def exKv_def tbl_get_def)
qed

text \<open>
  Claim C7. Whatever route stands behind the authorization middleware: when the request
  has no \<^verbatim>\<open>Authorization\<close> header, or the header does not start with \<^verbatim>\<open>Bearer \<close>, or
  \<^verbatim>\<open>verifyToken\<close> rejects the token after the prefix, the answer is 401 and the store is
  returned as it was received, the list of the calls made on it included: no get, set,
  delete or scan has taken place.
\<close>

theorem unauthenticated_rejected_before_store:
  assumes "authorization q = None
         \<or> (\<exists>h. authorization q = Some h
               \<and> (\<not> prefix ''Bearer '' h \<or> verifyToken R (dateNowMs q) (drop 7 h) = None))"
  shows "status (fst (serve R q r st)) = 401
       \<and> snd (serve R q r st) = st
       \<and> calls (snd (serve R q r st)) = calls st"
  using authMiddleware_rejects [OF assms] by (simp add: serve_def)

theorem unauthenticated_rejected_before_store_witness:
  "status (fst (serve exRuntime exRequest (GetBoard ''b1'') exKv)) = 401
   \<and> calls (snd (serve exRuntime exRequest (GetBoard ''b1'') exKv)) = []
   \<and> status (fst (serve exRuntime (exRequest\<lparr>authorization := None\<rparr>) (DeleteBoard ''b1'') exKv)) = 401
   \<and> snd (serve exRuntime (exRequest\<lparr>authorization := Some ''Basic abc''\<rparr>) (DeleteBoard ''b1'') exKv) = exKv"
proof -
  have forged: "verifyToken exRuntime (dateNowMs exRequest) (drop 7 ''Bearer forged.token.value'') = None"
    by (simp add: verifyToken_def djwt_verify_def exRuntime_decode)
  have h: "authorization exRequest = Some ''Bearer forged.token.value''"
    by (simp add: exRequest_def)
  have c: "calls exKv = []"
    by (simp add: exKv_def)
  have "status (fst (serve exRuntime exRequest (GetBoard ''b1'') exKv)) = 401
      \<and> calls (snd (serve exRuntime exRequest (GetBoard ''b1'') exKv)) = calls exKv"
    using unauthenticated_rejected_before_store [of exRequest exRuntime "GetBoard ''b1''" exKv]
      forged h by blast
  moreover have "status (fst (serve exRuntime (exRequest\<lparr>authorization := None\<rparr>) (DeleteBoard ''b1'') exKv)) = 401"
    using unauthenticated_rejected_before_store
      [of "exRequest\<lparr>authorization := None\<rparr>" exRuntime "DeleteBoard ''b1''" exKv]
    by simp
  moreover have "snd (serve exRuntime (exRequest\<lparr>authorization := Some ''Basic abc''\<rparr>) (DeleteBoard ''b1'') exKv) = exKv"
    using unauthenticated_rejected_before_store
      [of "exRequest\<lparr>authorization := Some ''Basic abc''\<rparr>" exRuntime "DeleteBoard ''b1''" exKv]
    by simp
  ultimately show ?thesis
    by (simp add: c)
qed

section \<open>Tokens\<close>

text \<open>
  Claim C5. \<^verbatim>\<open>verifyToken\<close> never throws: its result is the payload or null. It is null
  for a malformed token, for a token whose signature is not the one the server's key
  gives, and for a token whose \<^verbatim>\<open>exp\<close> is in the past, whatever its signature; it is a
  payload exactly for a well-formed token with the server's signature that has not
  expired. A token issued by \<^verbatim>\<open>generateToken\<close> carries \<^verbatim>\<open>{userId, username, exp}\<close> with
  \<^verbatim>\<open>exp\<close> one day after the second of issue, signed with the key \<^verbatim>\<open>verifyToken\<close> checks
  with, and while it has not expired \<^verbatim>\<open>verifyToken\<close> returns that payload, given that
  the token text reads back as it was written. The key is the secret of the
  environment, or the default secret when the environment has none.
\<close>

theorem verifyToken_checks_signature_and_expiry:
  "(jwt_decode R token = None \<longrightarrow> verifyToken R nowMs token = None)
   \<and> (\<forall>p signature. jwt_decode R token = Some (p, signature)
          \<and> signature \<noteq> hmacSha256 R (getKey R) p \<longrightarrow> verifyToken R nowMs token = None)
   \<and> (\<forall>p signature. jwt_decode R token = Some (p, signature)
          \<and> jwt_exp p * 1000 < nowMs \<longrightarrow> verifyToken R nowMs token = None)
   \<and> (\<forall>p. verifyToken R nowMs token = Some p \<longleftrightarrow>
          jwt_decode R token = Some (p, hmacSha256 R (getKey R) p) \<and> nowMs \<le> jwt_exp p * 1000)
   \<and> (\<forall>p. p = \<lparr>jwt_userId = userId, jwt_username = name, jwt_exp = issuedMs div 1000 + 86400\<rparr>
          \<and> jwt_decode R (jwt_encode R p (hmacSha256 R (getKey R) p)) =
              Some (p, hmacSha256 R (getKey R) p)
          \<and> nowMs \<le> jwt_exp p * 1000 \<longrightarrow>
          verifyToken R nowMs (generateToken R issuedMs userId name) = Some p)
   \<and> getKey R = js_or (env_JWT_SECRET R) ''your-secret-key-change-in-production''"
  by (auto simp: verifyToken_def djwt_verify_def djwt_create_def generateToken_def getKey_def
      JWT_SECRET_def split: option.splits sum.splits if_splits)

theorem verifyToken_checks_signature_and_expiry_witness:
  "verifyToken exRuntime 1714554000000 ''forged.token.value'' = None
   \<and> verifyToken exRuntime 1714554000000 ''another-key.u1.ada'' = None
   \<and> verifyToken exRuntime 1714640401000 (generateToken exRuntime 1714554000000 ''u1'' ''ada'') = None
   \<and> verifyToken exRuntime 1714554060000 (generateToken exRuntime 1714554000000 ''u1'' ''ada'') =
       Some \<lparr>jwt_userId = ''u1'', jwt_username = ''ada'', jwt_exp = 1714640400\<rparr>"
proof -
  let ?good = "''your-secret-key-change-in-production.u1.ada''"
  note key = exRuntime_key
  have sig: "hmacSha256 exRuntime k p = k" for k p
    by (simp add: exRuntime_def)
  have payload: "exPayload =
      \<lparr>jwt_userId = ''u1'', jwt_username = ''ada'', jwt_exp = 1714554000000 div 1000 + 86400\<rparr>"
    by (simp add: exPayload_def)
  have encoded: "jwt_encode exRuntime exPayload (hmacSha256 exRuntime (getKey exRuntime) exPayload) = ?good"
    by (simp add: sig key) (simp add: exRuntime_def exPayload_def)
  have exp: "jwt_exp exPayload * 1000 < 1714640401000" "1714554060000 \<le> jwt_exp exPayload * 1000"
    by (simp_all add: exPayload_def)
  have malformed: "verifyToken exRuntime 1714554000000 ''forged.token.value'' = None"
    using verifyToken_checks_signature_and_expiry [of exRuntime "''forged.token.value''" 1714554000000]
      exRuntime_decode(3)
    by blast
  have other_key: "verifyToken exRuntime 1714554000000 ''another-key.u1.ada'' = None"
  proof -
    have "''another-key'' \<noteq> hmacSha256 exRuntime (getKey exRuntime) exPayload"
      by (simp add: sig key)
    with verifyToken_checks_signature_and_expiry [of exRuntime "''another-key.u1.ada''" 1714554000000]
      exRuntime_decode(2)
    show ?thesis
      by blast
  qed
  have expired: "verifyToken exRuntime 1714640401000 ?good = None"
    using verifyToken_checks_signature_and_expiry [of exRuntime ?good 1714640401000]
      exRuntime_decode(1) exp(1)
    by blast
  have issued: "verifyToken exRuntime 1714554060000 (generateToken exRuntime 1714554000000 ''u1'' ''ada'') =
      Some exPayload"
  proof -
    have "jwt_decode exRuntime
        (jwt_encode exRuntime exPayload (hmacSha256 exRuntime (getKey exRuntime) exPayload)) =
        Some (exPayload, hmacSha256 exRuntime (getKey exRuntime) exPayload)"
      by (simp only: encoded exRuntime_decode(1)) (simp add: sig key)
    with verifyToken_checks_signature_and_expiry [of exRuntime _ 1714554060000 "''u1''" "''ada''"
        1714554000000] payload exp(2)
    show ?thesis
      by blast
  qed
  from malformed other_key expired issued show ?thesis
    by (simp add: exRuntime_token exPayload_def)
qed

end
